theory Spec2Isabelle
  imports Complex_Main
begin

section \<open>JavaScript values\<close>

text \<open>
  A Number is modelled by its exact value: a finite double is a rational, and there are
  three non-finite Numbers. Negative zero is identified with zero (the program never
  divides by it). Integer counters are taken as mathematical integers, which is what a
  Number computes below \<open>2 ^ 53\<close>.
\<close>

datatype jsnum = Fin rat | NaN | PosInf | NegInf

text \<open>
  The values that \<open>JSON.parse\<close> produces, and \<open>undefined\<close>, which reading a
  missing property gives. An object is the list of its own properties; a lookup takes the
  first entry for a key. A string is the list of its code units.
\<close>

datatype jsval =
    JUndefined
  | JNull
  | JBool bool
  | JNum jsnum
  | JStr string
  | JArr "jsval list"
  | JObj "(string \<times> jsval) list"

text \<open>What a \<open>throw\<close> carries: a TypeError of the runtime, or an \<open>Error\<close> made by the
  program with its message.\<close>

datatype exn = TypeError | Error string

section \<open>parseInt\<close>

text \<open>\<open>parseInt(string)\<close> with no radix, after ECMA-262: leading white space is
  dropped, then one sign, then a \<open>0x\<close> or \<open>0X\<close> prefix selects radix 16; the longest
  run of digits of the radix is the value, and an empty run gives \<open>NaN\<close> (here \<open>None\<close>).
  The white space is that of the code units below 256. The value is the exact integer; the
  runtime rounds it to a double, which changes nothing below \<open>2 ^ 53\<close>.\<close>

definition is_space :: "char \<Rightarrow> bool" where
  "is_space c = ((of_char c :: nat) \<in> {9, 10, 11, 12, 13, 32, 160})"

definition digit_value :: "char \<Rightarrow> nat" where
  "digit_value c =
     (let n = (of_char c :: nat)
      in if 48 \<le> n \<and> n \<le> 57 then n - 48
         else if 97 \<le> n \<and> n \<le> 122 then n - 87
         else if 65 \<le> n \<and> n \<le> 90 then n - 55
         else 36)"

definition radix_value :: "nat \<Rightarrow> string \<Rightarrow> nat" where
  "radix_value R Z = foldl (\<lambda>a c. a * R + digit_value c) 0 Z"

definition parseInt :: "string \<Rightarrow> int option" where
  "parseInt inputString =
     (let S = dropWhile is_space inputString;
          sign = (case S of c # _ \<Rightarrow> if c = CHR ''-'' then (- 1 :: int) else 1 | [] \<Rightarrow> 1);
          S1 = (case S of c # cs \<Rightarrow> if c = CHR ''+'' \<or> c = CHR ''-'' then cs else S | [] \<Rightarrow> S);
          hex = (case S1 of a # b # _ \<Rightarrow> a = CHR ''0'' \<and> (b = CHR ''x'' \<or> b = CHR ''X'')
                 | _ \<Rightarrow> False);
          R = (if hex then 16 else 10);
          S2 = (if hex then drop 2 S1 else S1);
          Z = takeWhile (\<lambda>c. digit_value c < R) S2
      in if Z = [] then None else Some (sign * int (radix_value R Z)))"

text \<open>The decimal text of an integer: the form in which an id travels in a path.\<close>

definition digit_char :: "nat \<Rightarrow> char" where
  "digit_char d = char_of (48 + d)"

function digits :: "nat \<Rightarrow> string" where
  "digits n = (if n < 10 then [digit_char n] else digits (n div 10) @ [digit_char (n mod 10)])"
  by pat_completeness auto
termination
  by (relation "measure (\<lambda>n. n)") auto

declare digits.simps [simp del]

definition dec_string :: "int \<Rightarrow> string" where
  "dec_string i = (if i < 0 then CHR ''-'' # digits (nat (- i)) else digits (nat i))"

section \<open>The recipe store\<close>

text \<open>\<open>recipeStorage\<close> of src/index.js, lines 7 to 30 (the same in every variant of the
  file). The field \<open>id\<close> of a recipe is \<open>recipe_id\<close> here. \<open>find\<close> returns
  \<open>undefined\<close> and \<open>findIndex\<close> returns \<open>-1\<close> when nothing matches: both are \<open>None\<close>.
  \<open>getById\<close> and \<open>deleteById\<close> are called with a path parameter, a string.\<close>

record recipe =
  recipe_id :: int
  content :: jsval
  cityId :: string

record recipeStorage =
  recipes :: "recipe list"
  lastId :: int

definition recipeStorage_init :: recipeStorage where
  "recipeStorage_init = \<lparr>recipes = [], lastId = 0\<rparr>"

definition add :: "string \<Rightarrow> jsval \<Rightarrow> recipeStorage \<Rightarrow> recipe \<times> recipeStorage" where
  "add cid c s =
     (let i = lastId s + 1;
          r = \<lparr>recipe_id = i, content = c, cityId = cid\<rparr>
      in (r, s\<lparr>recipes := recipes s @ [r], lastId := i\<rparr>))"

definition getById :: "string \<Rightarrow> recipeStorage \<Rightarrow> recipe option" where
  "getById i s = find (\<lambda>r. Some (recipe_id r) = parseInt i) (recipes s)"

definition getByCityId :: "string \<Rightarrow> recipeStorage \<Rightarrow> recipe list" where
  "getByCityId cid s = filter (\<lambda>r. cityId r = cid) (recipes s)"

fun findIndex :: "('a \<Rightarrow> bool) \<Rightarrow> 'a list \<Rightarrow> nat option" where
  "findIndex P [] = None"
| "findIndex P (x # xs) =
     (if P x then Some 0 else map_option Suc (findIndex P xs))"

definition deleteById :: "string \<Rightarrow> recipeStorage \<Rightarrow> bool \<times> recipeStorage" where
  "deleteById i s =
     (case findIndex (\<lambda>r. Some (recipe_id r) = parseInt i) (recipes s) of
        Some index \<Rightarrow> (True, s\<lparr>recipes := take index (recipes s) @ drop (Suc index) (recipes s)\<rparr>)
      | None \<Rightarrow> (False, s))"

text \<open>A run of store operations, with the ids that the \<open>add\<close>s handed out, in order.\<close>

datatype store_op = Add string jsval | DeleteById string

fun run_ops :: "store_op list \<Rightarrow> recipeStorage \<Rightarrow> recipeStorage \<times> int list" where
  "run_ops [] s = (s, [])"
| "run_ops (Add cid c # ops) s =
     (let (r, s') = add cid c s; (t, ids) = run_ops ops s' in (t, recipe_id r # ids))"
| "run_ops (DeleteById i # ops) s = run_ops ops (snd (deleteById i s))"

text \<open>What every store that the operations can reach satisfies: the stored ids lie between
  1 and \<open>lastId\<close>, and no two stored recipes share an id.\<close>

definition store_inv :: "recipeStorage \<Rightarrow> bool" where
  "store_inv s =
     (0 \<le> lastId s
      \<and> (\<forall>r\<in>set (recipes s). 1 \<le> recipe_id r \<and> recipe_id r \<le> lastId s)
      \<and> distinct (map recipe_id (recipes s)))"

section \<open>The environment of a request\<close>

text \<open>
  What the program reads from outside itself: its configuration, the upstream services
  (\<open>fetch\<close> answers a URL), and two operations of the language whose tables are not part
  of this development: the text of a Number that is not a safe integer, and the Number
  that a string denotes.
\<close>

text \<open>\<open>fetch\<close> rejects (\<open>NetworkFailure\<close>) or resolves to a response with a status
  and a body; \<open>response.json()\<close> gives the parsed body or rejects (\<open>None\<close>).\<close>

datatype fetch_result = NetworkFailure | Response nat "jsval option"

record env =
  API_KEY :: string
  CITY_API_BASE_URL :: string
  WEATHER_API_BASE_URL :: string
  fetch :: "string \<Rightarrow> fetch_result"
  NumberToString :: "rat \<Rightarrow> string"
  StringToNumber :: "string \<Rightarrow> jsnum"

text \<open>\<open>response.ok\<close>: the status is in the range 200 to 299.\<close>

definition ok :: "nat \<Rightarrow> bool" where
  "ok st = (200 \<le> st \<and> st \<le> 299)"

section \<open>Operations of the language\<close>

definition andThen :: "exn + 'a \<Rightarrow> ('a \<Rightarrow> exn + 'b) \<Rightarrow> exn + 'b" where
  "andThen m f = (case m of Inl x \<Rightarrow> Inl x | Inr a \<Rightarrow> f a)"

fun map_exn :: "('a \<Rightarrow> exn + 'b) \<Rightarrow> 'a list \<Rightarrow> exn + 'b list" where
  "map_exn f [] = Inr []"
| "map_exn f (x # xs) =
     (case f x of Inl e \<Rightarrow> Inl e
      | Inr y \<Rightarrow> (case map_exn f xs of Inl e \<Rightarrow> Inl e | Inr ys \<Rightarrow> Inr (y # ys)))"

definition js_int :: "int \<Rightarrow> jsval" where
  "js_int i = JNum (Fin (of_int i))"

text \<open>ToBoolean.\<close>

definition truthy :: "jsval \<Rightarrow> bool" where
  "truthy v =
     (case v of
        JUndefined \<Rightarrow> False
      | JNull \<Rightarrow> False
      | JBool b \<Rightarrow> b
      | JNum n \<Rightarrow> n \<noteq> NaN \<and> n \<noteq> Fin 0
      | JStr s \<Rightarrow> s \<noteq> []
      | JArr xs \<Rightarrow> True
      | JObj ps \<Rightarrow> True)"

text \<open>
  \<open>v.k\<close> for a name \<open>k\<close> that is not an array index and that no built-in prototype but
  \<open>length\<close> defines (the program reads \<open>content\<close>, \<open>length\<close>, \<open>coordinates\<close>,
  \<open>population\<close>, \<open>knownFor\<close>, \<open>today\<close>, \<open>tomorrow\<close>, \<open>min\<close> and \<open>max\<close>).
  Reading a property of \<open>undefined\<close> or \<open>null\<close> throws.
\<close>

definition get_prop :: "jsval \<Rightarrow> string \<Rightarrow> exn + jsval" where
  "get_prop v k =
     (case v of
        JUndefined \<Rightarrow> Inl TypeError
      | JNull \<Rightarrow> Inl TypeError
      | JBool b \<Rightarrow> Inr JUndefined
      | JNum n \<Rightarrow> Inr JUndefined
      | JStr s \<Rightarrow> Inr (if k = ''length'' then js_int (int (length s)) else JUndefined)
      | JArr xs \<Rightarrow> Inr (if k = ''length'' then js_int (int (length xs)) else JUndefined)
      | JObj ps \<Rightarrow> Inr (case map_of ps k of Some x \<Rightarrow> x | None \<Rightarrow> JUndefined))"

text \<open>\<open>v[i]\<close> for an index \<open>i\<close>.\<close>

definition get_index :: "jsval \<Rightarrow> nat \<Rightarrow> exn + jsval" where
  "get_index v i =
     (case v of
        JUndefined \<Rightarrow> Inl TypeError
      | JNull \<Rightarrow> Inl TypeError
      | JBool b \<Rightarrow> Inr JUndefined
      | JNum n \<Rightarrow> Inr JUndefined
      | JStr s \<Rightarrow> Inr (if i < length s then JStr [s ! i] else JUndefined)
      | JArr xs \<Rightarrow> Inr (if i < length xs then xs ! i else JUndefined)
      | JObj ps \<Rightarrow> Inr (case map_of ps (digits i) of Some x \<Rightarrow> x | None \<Rightarrow> JUndefined))"

text \<open>
  Number::toString. A safe integer is written in decimal; the text of any other finite
  Number comes from the environment.
\<close>

definition number_to_string :: "env \<Rightarrow> jsnum \<Rightarrow> string" where
  "number_to_string e n =
     (case n of
        NaN \<Rightarrow> ''NaN''
      | PosInf \<Rightarrow> ''Infinity''
      | NegInf \<Rightarrow> ''-Infinity''
      | Fin r \<Rightarrow>
          if of_int \<lfloor>r\<rfloor> = r \<and> \<bar>r\<bar> \<le> 2 ^ 53 then dec_string \<lfloor>r\<rfloor> else NumberToString e r)"

fun join_comma :: "(exn + string) list \<Rightarrow> exn + string" where
  "join_comma [] = Inr []"
| "join_comma [x] = x"
| "join_comma (x # y # ys) =
     (case x of Inl e \<Rightarrow> Inl e
      | Inr s \<Rightarrow> (case join_comma (y # ys) of Inl e \<Rightarrow> Inl e | Inr t \<Rightarrow> Inr (s @ '','' @ t)))"

text \<open>
  ToString, which \<open>String(v)\<close> and a template literal apply. An array is joined with
  commas, \<open>undefined\<close> and \<open>null\<close> elements giving the empty text. A plain object gives
  \<open>[object Object]\<close> through \<open>Object.prototype.toString\<close>, unless it has a property
  \<open>toString\<close> of its own: a parsed value is never callable, \<open>valueOf\<close> returns the object
  itself, and the conversion throws a TypeError.
\<close>

fun to_string :: "env \<Rightarrow> jsval \<Rightarrow> exn + string" where
  "to_string e JUndefined = Inr ''undefined''"
| "to_string e JNull = Inr ''null''"
| "to_string e (JBool b) = Inr (if b then ''true'' else ''false'')"
| "to_string e (JNum n) = Inr (number_to_string e n)"
| "to_string e (JStr s) = Inr s"
| "to_string e (JArr xs) =
     join_comma (map (\<lambda>x. if x = JUndefined \<or> x = JNull then Inr [] else to_string e x) xs)"
| "to_string e (JObj ps) =
     (if ''toString'' \<in> fst ` set ps then Inl TypeError else Inr ''[object Object]'')"

text \<open>ToNumber, which \<open>Number(v)\<close> and a comparison with a Number apply.\<close>

definition to_number :: "env \<Rightarrow> jsval \<Rightarrow> exn + jsnum" where
  "to_number e v =
     (case v of
        JUndefined \<Rightarrow> Inr NaN
      | JNull \<Rightarrow> Inr (Fin 0)
      | JBool b \<Rightarrow> Inr (Fin (if b then 1 else 0))
      | JNum n \<Rightarrow> Inr n
      | JStr s \<Rightarrow> Inr (StringToNumber e s)
      | JArr xs \<Rightarrow> andThen (to_string e v) (\<lambda>s. Inr (StringToNumber e s))
      | JObj ps \<Rightarrow> andThen (to_string e v) (\<lambda>s. Inr NaN))"

definition num_lt :: "jsnum \<Rightarrow> jsnum \<Rightarrow> bool" where
  "num_lt a b =
     (case (a, b) of
        (Fin x, Fin y) \<Rightarrow> x < y
      | (Fin x, PosInf) \<Rightarrow> True
      | (NegInf, Fin y) \<Rightarrow> True
      | (NegInf, PosInf) \<Rightarrow> True
      | _ \<Rightarrow> False)"

text \<open>\<open>v < n\<close> and \<open>v > n\<close> for a Number \<open>n\<close>.\<close>

definition js_lt :: "env \<Rightarrow> jsval \<Rightarrow> jsnum \<Rightarrow> exn + bool" where
  "js_lt e v n = andThen (to_number e v) (\<lambda>a. Inr (num_lt a n))"

definition js_gt :: "env \<Rightarrow> jsval \<Rightarrow> jsnum \<Rightarrow> exn + bool" where
  "js_gt e v n = andThen (to_number e v) (\<lambda>a. Inr (num_lt n a))"

text \<open>\<open>parseInt(v)\<close> for a value: the text of the value is parsed.\<close>

definition parseInt_val :: "env \<Rightarrow> jsval \<Rightarrow> exn + jsval" where
  "parseInt_val e v =
     andThen (to_string e v)
       (\<lambda>s. Inr (case parseInt s of None \<Rightarrow> JNum NaN | Some i \<Rightarrow> js_int i))"

definition js_Number :: "env \<Rightarrow> jsval \<Rightarrow> exn + jsval" where
  "js_Number e v = andThen (to_number e v) (\<lambda>n. Inr (JNum n))"

definition js_String :: "env \<Rightarrow> jsval \<Rightarrow> exn + jsval" where
  "js_String e v = andThen (to_string e v) (\<lambda>s. Inr (JStr s))"

definition typeof_number :: "jsval \<Rightarrow> bool" where
  "typeof_number v = (case v of JNum n \<Rightarrow> True | _ \<Rightarrow> False)"

definition Array_isArray :: "jsval \<Rightarrow> bool" where
  "Array_isArray v = (case v of JArr xs \<Rightarrow> True | _ \<Rightarrow> False)"

definition Number_isInteger :: "jsval \<Rightarrow> bool" where
  "Number_isInteger v = (case v of JNum (Fin r) \<Rightarrow> of_int \<lfloor>r\<rfloor> = r | _ \<Rightarrow> False)"

section \<open>Replies\<close>

text \<open>
  What a handler leaves behind: the reply it sent, the store, and the URLs it fetched, in
  order. \<open>Uncaught\<close> is an exception that leaves the handler; the server then answers
  in the handler's place.
\<close>

datatype reply = Reply nat jsval | Uncaught exn

record outcome =
  sent :: reply
  store :: recipeStorage
  calls :: "string list"

definition respond :: "reply \<Rightarrow> recipeStorage \<Rightarrow> string list \<Rightarrow> outcome" where
  "respond r s us = \<lparr>sent = r, store = s, calls = us\<rparr>"

definition error_body :: "string \<Rightarrow> jsval" where
  "error_body m = JObj [(''error'', JStr m)]"

definition city_not_found :: reply where
  "city_not_found = Reply 404 (error_body ''City not found'')"

definition internal_error :: reply where
  "internal_error = Reply 500 (error_body ''Internal server error'')"

text \<open>The \<open>catch\<close> block that closes each handler: whatever was thrown, the reply is 500.\<close>

definition catch :: "exn + reply \<Rightarrow> reply" where
  "catch r = (case r of Inl x \<Rightarrow> internal_error | Inr a \<Rightarrow> a)"

definition city_url :: "env \<Rightarrow> string \<Rightarrow> string" where
  "city_url e cid = CITY_API_BASE_URL e @ ''/'' @ cid @ ''?apiKey='' @ API_KEY e"

definition insights_url :: "env \<Rightarrow> string \<Rightarrow> string" where
  "insights_url e cid = CITY_API_BASE_URL e @ ''/'' @ cid @ ''/insights?apiKey='' @ API_KEY e"

definition weather_url :: "env \<Rightarrow> jsval \<Rightarrow> exn + string" where
  "weather_url e cityData =
     andThen (get_prop cityData ''coordinates'') (\<lambda>c0.
     andThen (get_index c0 0) (\<lambda>lat.
     andThen (to_string e lat) (\<lambda>slat.
     andThen (get_prop cityData ''coordinates'') (\<lambda>c1.
     andThen (get_index c1 1) (\<lambda>lon.
     andThen (to_string e lon) (\<lambda>slon.
       Inr (WEATHER_API_BASE_URL e @ ''?lat='' @ slat @ ''&lon='' @ slon
              @ ''&apiKey='' @ API_KEY e)))))))"

definition prediction :: "string \<Rightarrow> jsval \<Rightarrow> jsval \<Rightarrow> jsval" where
  "prediction w lo hi = JObj [(''when'', JStr w), (''min'', lo), (''max'', hi)]"

definition infos_document :: "jsval \<Rightarrow> jsval \<Rightarrow> jsval \<Rightarrow> jsval \<Rightarrow> jsval \<Rightarrow> jsval \<Rightarrow> jsval" where
  "infos_document coordinates population knownFor today tomorrow rs =
     JObj [(''coordinates'', coordinates), (''population'', population),
           (''knownFor'', knownFor), (''weatherPredictions'', JArr [today, tomorrow]),
           (''recipes'', rs)]"

section \<open>GET /cities/:cityId/infos, as src/index.js has it\<close>

text \<open>
  Lines 54 to 100. The payloads are used as they come. Every \<open>throw\<close> in the \<open>try\<close>
  block, every TypeError of a property read and every rejection of \<open>fetch\<close> or of
  \<open>json()\<close> ends in the \<open>catch\<close> block, that is in the reply 500.
\<close>

definition recipe_entry :: "recipe \<Rightarrow> jsval" where
  "recipe_entry r = JObj [(''id'', js_int (recipe_id r)), (''content'', content r)]"

definition infos_response :: "jsval \<Rightarrow> jsval \<Rightarrow> recipe list \<Rightarrow> exn + jsval" where
  "infos_response cityData weatherData rs =
     andThen (get_prop cityData ''coordinates'') (\<lambda>coordinates.
     andThen (get_prop cityData ''population'') (\<lambda>population.
     andThen (get_prop cityData ''knownFor'') (\<lambda>knownFor.
     andThen (get_prop weatherData ''today'') (\<lambda>today.
     andThen (get_prop today ''min'') (\<lambda>today_min.
     andThen (get_prop today ''max'') (\<lambda>today_max.
     andThen (get_prop weatherData ''tomorrow'') (\<lambda>tomorrow.
     andThen (get_prop tomorrow ''min'') (\<lambda>tomorrow_min.
     andThen (get_prop tomorrow ''max'') (\<lambda>tomorrow_max.
       Inr (infos_document coordinates population knownFor
              (prediction ''today'' today_min today_max)
              (prediction ''tomorrow'' tomorrow_min tomorrow_max)
              (JArr (map recipe_entry rs))))))))))))"

definition get_infos :: "env \<Rightarrow> string \<Rightarrow> recipeStorage \<Rightarrow> outcome" where
  "get_infos e cid s =
     (let url = city_url e cid in
      case fetch e url of
        NetworkFailure \<Rightarrow> respond internal_error s [url]
      | Response st b \<Rightarrow>
          if \<not> ok st then
            (if st = 404 then respond city_not_found s [url]
             else respond internal_error s [url])
          else
            (case b of
               None \<Rightarrow> respond internal_error s [url]
             | Some cityData \<Rightarrow>
                 (case weather_url e cityData of
                    Inl x \<Rightarrow> respond internal_error s [url]
                  | Inr wurl \<Rightarrow>
                      (case fetch e wurl of
                         NetworkFailure \<Rightarrow> respond internal_error s [url, wurl]
                       | Response wst wb \<Rightarrow>
                           if \<not> ok wst then respond internal_error s [url, wurl]
                           else
                             (case wb of
                                None \<Rightarrow> respond internal_error s [url, wurl]
                              | Some weatherData \<Rightarrow>
                                  respond
                                    (catch (andThen
                                       (infos_response cityData weatherData (getByCityId cid s))
                                       (\<lambda>r. Inr (Reply 200 r))))
                                    s [url, wurl])))))"

section \<open>GET /cities/:cityId/infos, as the variant with validation has it\<close>

text \<open>
  The variant of the file that checks the two payloads (coordinates as an array of two
  Numbers, the forecast as an object with \<open>today\<close> and \<open>tomorrow\<close>), lines 54 to 134
  there. It asks the city service for \<open>/insights\<close>, checks the city payload (lines 70
  to 82), fetches the forecast, checks it (lines 93 to 98), and normalises every field of
  the document (lines 100 to 127).
\<close>

text \<open>The checks on the city payload, each throwing an \<open>Error\<close> with its message.\<close>

definition nth_or_undefined :: "jsval list \<Rightarrow> nat \<Rightarrow> jsval" where
  "nth_or_undefined xs i = (if i < length xs then xs ! i else JUndefined)"

definition validate_city :: "jsval \<Rightarrow> exn + unit" where
  "validate_city cityData =
     andThen (get_prop cityData ''coordinates'') (\<lambda>coordinates.
       if (case coordinates of
             JArr xs \<Rightarrow> length xs \<noteq> 2 \<or> \<not> typeof_number (nth_or_undefined xs 0)
                          \<or> \<not> typeof_number (nth_or_undefined xs 1)
           | _ \<Rightarrow> True)
       then Inl (Error ''Invalid coordinates format from City API'')
       else
     andThen (get_prop cityData ''population'') (\<lambda>population.
       if \<not> typeof_number population \<or> \<not> Number_isInteger population
       then Inl (Error ''Invalid population format from City API'')
       else
     andThen (get_prop cityData ''knownFor'') (\<lambda>knownFor.
       if \<not> Array_isArray knownFor
       then Inl (Error ''Invalid knownFor format from City API'')
       else Inr ())))"

definition validate_weather :: "jsval \<Rightarrow> exn + unit" where
  "validate_weather weatherData =
     andThen (get_prop weatherData ''today'') (\<lambda>today.
       if \<not> truthy today then Inl (Error ''Invalid weather data format from Weather API'')
       else
     andThen (get_prop weatherData ''tomorrow'') (\<lambda>tomorrow.
       if \<not> truthy tomorrow then Inl (Error ''Invalid weather data format from Weather API'')
       else
     andThen (get_prop today ''min'') (\<lambda>today_min.
     andThen (get_prop today ''max'') (\<lambda>today_max.
     andThen (get_prop tomorrow ''min'') (\<lambda>tomorrow_min.
     andThen (get_prop tomorrow ''max'') (\<lambda>tomorrow_max.
       if \<not> typeof_number today_min \<or> \<not> typeof_number today_max
          \<or> \<not> typeof_number tomorrow_min \<or> \<not> typeof_number tomorrow_max
       then Inl (Error ''Invalid weather data format from Weather API'')
       else Inr ()))))))"

text \<open>The normalised fields of the city payload: coordinates, population, knownFor.\<close>

definition city_fields :: "env \<Rightarrow> jsval \<Rightarrow> exn + jsval \<times> jsval \<times> jsval" where
  "city_fields e cityData =
     andThen (get_prop cityData ''coordinates'') (\<lambda>c.
     andThen (get_index c 0) (\<lambda>c0.
     andThen (js_Number e c0) (\<lambda>lat.
     andThen (get_index c 1) (\<lambda>c1.
     andThen (js_Number e c1) (\<lambda>lon.
     andThen (get_prop cityData ''population'') (\<lambda>p.
     andThen (parseInt_val e p) (\<lambda>population.
     andThen (get_prop cityData ''knownFor'') (\<lambda>k.
     andThen (case k of JArr xs \<Rightarrow> map_exn (js_String e) xs | _ \<Rightarrow> Inl TypeError) (\<lambda>knownFor.
       Inr (JArr [lat, lon], population, JArr knownFor))))))))))"

definition weather_fields :: "env \<Rightarrow> jsval \<Rightarrow> exn + jsval \<times> jsval" where
  "weather_fields e weatherData =
     andThen (get_prop weatherData ''today'') (\<lambda>today.
     andThen (get_prop today ''min'') (\<lambda>a.
     andThen (js_Number e a) (\<lambda>today_min.
     andThen (get_prop today ''max'') (\<lambda>b.
     andThen (js_Number e b) (\<lambda>today_max.
     andThen (get_prop weatherData ''tomorrow'') (\<lambda>tomorrow.
     andThen (get_prop tomorrow ''min'') (\<lambda>c.
     andThen (js_Number e c) (\<lambda>tomorrow_min.
     andThen (get_prop tomorrow ''max'') (\<lambda>d.
     andThen (js_Number e d) (\<lambda>tomorrow_max.
       Inr (prediction ''today'' today_min today_max,
            prediction ''tomorrow'' tomorrow_min tomorrow_max)))))))))))"

definition listed_recipe :: "env \<Rightarrow> recipe \<Rightarrow> exn + jsval" where
  "listed_recipe e r =
     andThen (parseInt_val e (js_int (recipe_id r))) (\<lambda>i.
     andThen (js_String e (content r)) (\<lambda>c.
       Inr (JObj [(''id'', i), (''content'', c)])))"

definition infos_response_validated ::
  "env \<Rightarrow> jsval \<Rightarrow> jsval \<Rightarrow> recipe list \<Rightarrow> exn + jsval" where
  "infos_response_validated e cityData weatherData rs =
     andThen (map_exn (listed_recipe e) rs) (\<lambda>listed.
     andThen (city_fields e cityData) (\<lambda>(coordinates, population, knownFor).
     andThen (weather_fields e weatherData) (\<lambda>(today, tomorrow).
       Inr (infos_document coordinates population knownFor today tomorrow (JArr listed)))))"

definition get_infos_validated :: "env \<Rightarrow> string \<Rightarrow> recipeStorage \<Rightarrow> outcome" where
  "get_infos_validated e cid s =
     (let url = insights_url e cid in
      case fetch e url of
        NetworkFailure \<Rightarrow> respond internal_error s [url]
      | Response st b \<Rightarrow>
          if \<not> ok st then
            (if st = 404 then respond city_not_found s [url]
             else respond internal_error s [url])
          else
            (case b of
               None \<Rightarrow> respond internal_error s [url]
             | Some cityData \<Rightarrow>
                 (case andThen (validate_city cityData) (\<lambda>u. weather_url e cityData) of
                    Inl x \<Rightarrow> respond internal_error s [url]
                  | Inr wurl \<Rightarrow>
                      (case fetch e wurl of
                         NetworkFailure \<Rightarrow> respond internal_error s [url, wurl]
                       | Response wst wb \<Rightarrow>
                           if \<not> ok wst then respond internal_error s [url, wurl]
                           else
                             (case wb of
                                None \<Rightarrow> respond internal_error s [url, wurl]
                              | Some weatherData \<Rightarrow>
                                  respond
                                    (catch (andThen (validate_weather weatherData) (\<lambda>u.
                                       andThen
                                         (infos_response_validated e cityData weatherData
                                            (getByCityId cid s))
                                         (\<lambda>r. Inr (Reply 200 r)))))
                                    s [url, wurl])))))"

section \<open>POST /cities/:cityId/recipes\<close>

text \<open>src/index.js, lines 103 to 139. The variants of the file differ here only in the
  URL of the city lookup, which \<open>fetch\<close> answers as it will.\<close>

text \<open>\<open>const { content } = request.body || {}\<close>; a request without a body has
  \<open>undefined\<close> for its body.\<close>

definition body_content :: "jsval \<Rightarrow> exn + jsval" where
  "body_content body = get_prop (if truthy body then body else JObj []) ''content''"

text \<open>\<open>content.length < 10\<close> and \<open>content.length > 2000\<close>.\<close>

definition too_short :: "env \<Rightarrow> jsval \<Rightarrow> exn + bool" where
  "too_short e c = andThen (get_prop c ''length'') (\<lambda>l. js_lt e l (Fin 10))"

definition too_long :: "env \<Rightarrow> jsval \<Rightarrow> exn + bool" where
  "too_long e c = andThen (get_prop c ''length'') (\<lambda>l. js_gt e l (Fin 2000))"

definition created :: "recipe \<Rightarrow> reply" where
  "created r = Reply 201 (JObj [(''id'', js_int (recipe_id r)), (''content'', content r)])"

text \<open>The three checks on \<open>content\<close> stand before the \<open>try\<close>: what they throw is not caught.\<close>

definition post_recipe :: "env \<Rightarrow> string \<Rightarrow> jsval \<Rightarrow> recipeStorage \<Rightarrow> outcome" where
  "post_recipe e cid body s =
     (case body_content body of
        Inl x \<Rightarrow> respond (Uncaught x) s []
      | Inr c \<Rightarrow>
          if \<not> truthy c then respond (Reply 400 (error_body ''Content is required'')) s []
          else
            (case too_short e c of
               Inl x \<Rightarrow> respond (Uncaught x) s []
             | Inr True \<Rightarrow>
                 respond (Reply 400 (error_body ''Content is too short (minimum 10 characters)'')) s []
             | Inr False \<Rightarrow>
                 (case too_long e c of
                    Inl x \<Rightarrow> respond (Uncaught x) s []
                  | Inr True \<Rightarrow>
                      respond (Reply 400 (error_body ''Content is too long (maximum 2000 characters)'')) s []
                  | Inr False \<Rightarrow>
                      (let url = city_url e cid in
                       case fetch e url of
                         NetworkFailure \<Rightarrow> respond internal_error s [url]
                       | Response st b \<Rightarrow>
                           if \<not> ok st then
                             (if st = 404 then respond city_not_found s [url]
                              else respond internal_error s [url])
                           else
                             (let (r, s') = add cid c s in respond (created r) s' [url])))))"

section \<open>DELETE /cities/:cityId/recipes/:recipeId\<close>

text \<open>src/index.js, lines 142 to 175; the variants differ in the URL only.\<close>

definition delete_recipe :: "env \<Rightarrow> string \<Rightarrow> string \<Rightarrow> recipeStorage \<Rightarrow> outcome" where
  "delete_recipe e cid recipeId s =
     (let url = city_url e cid in
      case fetch e url of
        NetworkFailure \<Rightarrow> respond internal_error s [url]
      | Response st b \<Rightarrow>
          if \<not> ok st then
            (if st = 404 then respond city_not_found s [url]
             else respond internal_error s [url])
          else
            (case getById recipeId s of
               None \<Rightarrow> respond (Reply 404 (error_body ''Recipe not found'')) s [url]
             | Some r \<Rightarrow>
                 if cityId r \<noteq> cid then
                   respond (Reply 404 (error_body ''Recipe not found for this city'')) s [url]
                 else respond (Reply 204 JUndefined) (snd (deleteById recipeId s)) [url]))"

section \<open>The text of a Number\<close>

text \<open>
  What ECMA-262 fixes about the text of a finite Number, whichever digits it has: an
  optional minus sign, then a decimal digit, and nowhere the letter \<open>x\<close>. A runtime
  is in order when the text it gives to every finite Number is of this form.
\<close>

definition numeric_text :: "string \<Rightarrow> bool" where
  "numeric_text t =
     ((case (case t of c # cs \<Rightarrow> if c = CHR ''-'' then cs else t | [] \<Rightarrow> t) of
         d # ds \<Rightarrow> digit_value d < 10
       | [] \<Rightarrow> False)
      \<and> CHR ''x'' \<notin> set t \<and> CHR ''X'' \<notin> set t)"

definition runtime_ok :: "env \<Rightarrow> bool" where
  "runtime_ok e = (\<forall>r. numeric_text (NumberToString e r))"

section \<open>The shape of a city payload, in the words of the specification\<close>

text \<open>
  Coordinates are two numeric values, population is an integer, knownFor is a sequence.
\<close>

definition spec_numeric :: "jsval \<Rightarrow> bool" where
  "spec_numeric v = (case v of JNum n \<Rightarrow> True | _ \<Rightarrow> False)"

definition spec_two_numeric :: "jsval \<Rightarrow> bool" where
  "spec_two_numeric v =
     (case v of JArr xs \<Rightarrow> length xs = 2 \<and> (\<forall>x\<in>set xs. spec_numeric x) | _ \<Rightarrow> False)"

definition spec_integer :: "jsval \<Rightarrow> bool" where
  "spec_integer v =
     (case v of JNum n \<Rightarrow> (case n of Fin r \<Rightarrow> r \<in> \<int> | _ \<Rightarrow> False) | _ \<Rightarrow> False)"

definition spec_sequence :: "jsval \<Rightarrow> bool" where
  "spec_sequence v = (case v of JArr xs \<Rightarrow> True | _ \<Rightarrow> False)"

definition spec_field :: "jsval \<Rightarrow> string \<Rightarrow> (jsval \<Rightarrow> bool) \<Rightarrow> bool" where
  "spec_field raw k P = (case get_prop raw k of Inr v \<Rightarrow> P v | Inl x \<Rightarrow> False)"

definition spec_city_shape :: "jsval \<Rightarrow> bool" where
  "spec_city_shape raw =
     (spec_field raw ''coordinates'' spec_two_numeric
      \<and> spec_field raw ''population'' spec_integer
      \<and> spec_field raw ''knownFor'' spec_sequence)"

section \<open>Example inputs\<close>

text \<open>
  A city and a forecast of the expected shape, an upstream that serves them, an upstream
  that knows no city, a store with one recipe, and a content that passes the checks of
  the POST handler although it has no text, with the store that holds it.
\<close>

definition sample_city :: jsval where
  "sample_city =
     JObj [(''coordinates'', JArr [js_int 48, js_int 2]), (''population'', js_int 2000000),
           (''knownFor'', JArr [JStr ''bread''])]"

definition sample_weather :: jsval where
  "sample_weather =
     JObj [(''today'', JObj [(''min'', js_int 3), (''max'', js_int 9)]),
           (''tomorrow'', JObj [(''min'', js_int 4), (''max'', js_int 11)])]"

definition sample_fetch :: "string \<Rightarrow> fetch_result" where
  "sample_fetch u =
     (if u = ''https://api-ugi2pflmha-ew.a.run.app/weather?lat=48&lon=2&apiKey=key''
      then Response 200 (Some sample_weather) else Response 200 (Some sample_city))"

definition missing_fetch :: "string \<Rightarrow> fetch_result" where
  "missing_fetch u = Response 404 None"

definition sample_number_text :: "rat \<Rightarrow> string" where
  "sample_number_text r = ''0.5''"

definition sample_string_number :: "string \<Rightarrow> jsnum" where
  "sample_string_number t = NaN"

definition sample_env :: "(string \<Rightarrow> fetch_result) \<Rightarrow> env" where
  "sample_env f =
     \<lparr>API_KEY = ''key'',
      CITY_API_BASE_URL = ''https://api-ugi2pflmha-ew.a.run.app/cities'',
      WEATHER_API_BASE_URL = ''https://api-ugi2pflmha-ew.a.run.app/weather'',
      fetch = f, NumberToString = sample_number_text, StringToNumber = sample_string_number\<rparr>"

definition poisoned_content :: jsval where
  "poisoned_content = JObj [(''length'', js_int 12), (''toString'', JNull)]"

definition sample_store :: recipeStorage where
  "sample_store = snd (add ''7'' (JStr ''salt and pepper'') recipeStorage_init)"

definition poisoned_store :: recipeStorage where
  "poisoned_store = snd (add ''7'' poisoned_content recipeStorage_init)"



section \<open>The kinds of failure of a lookup\<close>

text \<open>
  The failures that the specification names, read off the answer of \<open>fetch\<close>: the city
  is not found (status 404); an upstream error (the network fails, or the status is
  neither a success nor, for the city, 404); a shape error (the status is a success, and
  the body cannot be parsed or fails the checks).
\<close>

definition lookup_not_found :: "env \<Rightarrow> string \<Rightarrow> bool" where
  "lookup_not_found e url =
     (case fetch e url of NetworkFailure \<Rightarrow> False | Response st b \<Rightarrow> st = 404)"

definition city_upstream_error :: "env \<Rightarrow> string \<Rightarrow> bool" where
  "city_upstream_error e url =
     (case fetch e url of NetworkFailure \<Rightarrow> True | Response st b \<Rightarrow> \<not> ok st \<and> st \<noteq> 404)"

definition weather_upstream_error :: "env \<Rightarrow> string \<Rightarrow> bool" where
  "weather_upstream_error e url =
     (case fetch e url of NetworkFailure \<Rightarrow> True | Response st b \<Rightarrow> \<not> ok st)"

definition shape_error :: "env \<Rightarrow> string \<Rightarrow> (jsval \<Rightarrow> exn + unit) \<Rightarrow> bool" where
  "shape_error e url validate =
     (case fetch e url of
        NetworkFailure \<Rightarrow> False
      | Response st b \<Rightarrow>
          ok st \<and> (case b of None \<Rightarrow> True
                    | Some payload \<Rightarrow> (case validate payload of Inl x \<Rightarrow> True | Inr u \<Rightarrow> False)))"

section \<open>parseInt reads back the decimal text of an integer\<close>

lemma digit_value_digit_char: "d < 10 \<Longrightarrow> digit_value (digit_char d) = d"
  by (simp add: digit_value_def digit_char_def)

lemma decimal_digit_code: "digit_value c < 10 \<Longrightarrow> 48 \<le> (of_char c :: nat) \<and> (of_char c :: nat) \<le> 57"
  by (auto simp add: digit_value_def Let_def split: if_splits)

lemma decimal_digit_facts:
  assumes "digit_value c < 10"
  shows "\<not> is_space c" and "c \<noteq> CHR ''-''" and "c \<noteq> CHR ''+''"
    and "c \<noteq> CHR ''x''" and "c \<noteq> CHR ''X''"
  using decimal_digit_code [OF assms] by (auto simp add: is_space_def)

lemma parseInt_decimal:
  assumes "S \<noteq> []" and "\<forall>x\<in>set S. digit_value x < 10"
  shows "parseInt S = Some (int (radix_value 10 S))"
proof -
  from assms(1) obtain c cs where S: "S = c # cs" by (cases S) auto
  with assms(2) have c: "digit_value c < 10" by simp
  have nohex: "\<not> (case S of a # b # _ \<Rightarrow> a = CHR ''0'' \<and> (b = CHR ''x'' \<or> b = CHR ''X'') | _ \<Rightarrow> False)"
  proof (cases cs)
    case Nil
    with S show ?thesis by simp
  next
    case (Cons b bs)
    with S assms(2) have "digit_value b < 10" by simp
    from decimal_digit_facts(4,5) [OF this] S Cons show ?thesis by simp
  qed
  have tw: "takeWhile (\<lambda>c. digit_value c < 10) S = S"
    using assms(2) by (simp add: takeWhile_eq_all_conv)
  have dw: "dropWhile is_space S = S"
    using S decimal_digit_facts(1) [OF c] by simp
  have sg: "(case S of c # _ \<Rightarrow> if c = CHR ''-'' then (- 1 :: int) else 1 | [] \<Rightarrow> 1) = 1"
    using S decimal_digit_facts(2) [OF c] by simp
  have s1: "(case S of c # cs \<Rightarrow> if c = CHR ''+'' \<or> c = CHR ''-'' then cs else S | [] \<Rightarrow> S) = S"
    using S decimal_digit_facts(2,3) [OF c] by simp
  show ?thesis
    unfolding parseInt_def dw Let_def sg s1
    using nohex assms(1) by (simp add: tw)
qed

lemma parseInt_minus_decimal:
  assumes "S \<noteq> []" and "\<forall>x\<in>set S. digit_value x < 10"
  shows "parseInt (CHR ''-'' # S) = Some (- int (radix_value 10 S))"
proof -
  from assms(1) obtain c cs where S: "S = c # cs" by (cases S) auto
  have nohex: "\<not> (case S of a # b # _ \<Rightarrow> a = CHR ''0'' \<and> (b = CHR ''x'' \<or> b = CHR ''X'') | _ \<Rightarrow> False)"
  proof (cases cs)
    case Nil
    with S show ?thesis by simp
  next
    case (Cons b bs)
    with S assms(2) have "digit_value b < 10" by simp
    from decimal_digit_facts(4,5) [OF this] S Cons show ?thesis by simp
  qed
  have tw: "takeWhile (\<lambda>c. digit_value c < 10) S = S"
    using assms(2) by (simp add: takeWhile_eq_all_conv)
  have dw: "dropWhile is_space (CHR ''-'' # S) = CHR ''-'' # S"
    by (simp add: is_space_def)
  show ?thesis
    unfolding parseInt_def dw Let_def
    using nohex assms(1) by (simp add: tw)
qed

lemma digits_not_empty: "digits n \<noteq> []"
  by (subst digits.simps) simp

lemma digits_decimal: "\<forall>c\<in>set (digits n). digit_value c < 10"
proof (induction n rule: digits.induct)
  case (1 n)
  show ?case
  proof (cases "n < 10")
    case True
    then show ?thesis by (simp add: digits.simps [of n] digit_value_digit_char)
  next
    case False
    with "1.IH" have "\<forall>c\<in>set (digits (n div 10)). digit_value c < 10" by simp
    with False show ?thesis by (simp add: digits.simps [of n] digit_value_digit_char)
  qed
qed

lemma radix_value_snoc: "radix_value R (Z @ [c]) = radix_value R Z * R + digit_value c"
  by (simp add: radix_value_def)

lemma radix_value_digits: "radix_value 10 (digits n) = n"
proof (induction n rule: digits.induct)
  case (1 n)
  show ?case
  proof (cases "n < 10")
    case True
    then show ?thesis
      by (simp add: digits.simps [of n] radix_value_def digit_value_digit_char)
  next
    case False
    with "1.IH" have "radix_value 10 (digits (n div 10)) = n div 10" by simp
    with False show ?thesis
      by (simp add: digits.simps [of n] radix_value_snoc digit_value_digit_char)
  qed
qed

lemma parseInt_dec_string: "parseInt (dec_string i) = Some i"
  by (simp add: dec_string_def parseInt_decimal parseInt_minus_decimal
      digits_not_empty digits_decimal radix_value_digits)

lemma digit_char_values:
  "digit_char 0 = CHR ''0''" "digit_char 1 = CHR ''1''" "digit_char (Suc 0) = CHR ''1''"
  "digit_char 2 = CHR ''2''" "digit_char 3 = CHR ''3''" "digit_char 4 = CHR ''4''"
  "digit_char 5 = CHR ''5''" "digit_char 6 = CHR ''6''" "digit_char 7 = CHR ''7''"
  "digit_char 8 = CHR ''8''" "digit_char 9 = CHR ''9''"
  by code_simp+

lemma dec_string_1: "dec_string 1 = ''1''"
  by (simp add: dec_string_def digits.simps digit_char_values)

lemma parseInt_numeric_text: "numeric_text t \<Longrightarrow> \<exists>i. parseInt t = Some i"
proof -
  assume nt: "numeric_text t"
  then obtain c cs where t: "t = c # cs"
    by (cases t) (auto simp add: numeric_text_def)
  from nt have nox: "CHR ''x'' \<notin> set t" "CHR ''X'' \<notin> set t"
    by (simp_all add: numeric_text_def)
  show ?thesis
  proof (cases "c = CHR ''-''")
    case True
    with nt t obtain d ds where cs: "cs = d # ds" "digit_value d < 10"
      by (cases cs) (auto simp add: numeric_text_def)
    have dw: "dropWhile is_space t = t"
      using t True by (simp add: is_space_def)
    have nohex: "\<not> (case cs of a # b # _ \<Rightarrow> a = CHR ''0'' \<and> (b = CHR ''x'' \<or> b = CHR ''X'') | _ \<Rightarrow> False)"
      using nox t cs by (cases ds) auto
    show ?thesis
      unfolding parseInt_def dw Let_def
      using t True cs nohex by simp
  next
    case False
    with nt t have c: "digit_value c < 10"
      by (simp add: numeric_text_def)
    have dw: "dropWhile is_space t = t"
      using t decimal_digit_facts(1) [OF c] by simp
    have nohex: "\<not> (case t of a # b # _ \<Rightarrow> a = CHR ''0'' \<and> (b = CHR ''x'' \<or> b = CHR ''X'') | _ \<Rightarrow> False)"
      using nox t by (cases cs) auto
    show ?thesis
      unfolding parseInt_def dw Let_def
      using t c nohex decimal_digit_facts(2,3) [OF c] by simp
  qed
qed

lemma parseInt_val_integer:
  assumes "runtime_ok e" and "of_int \<lfloor>r\<rfloor> = r"
  shows "\<exists>k. parseInt_val e (JNum (Fin r)) = Inr (js_int k) \<and> (\<bar>r\<bar> \<le> 2 ^ 53 \<longrightarrow> k = \<lfloor>r\<rfloor>)"
proof (cases "\<bar>r\<bar> \<le> 2 ^ 53")
  case True
  with assms(2) show ?thesis
    by (simp add: parseInt_val_def andThen_def number_to_string_def parseInt_dec_string)
next
  case False
  from assms(1) have "numeric_text (NumberToString e r)"
    by (simp add: runtime_ok_def)
  from parseInt_numeric_text [OF this] obtain i where "parseInt (NumberToString e r) = Some i" ..
  with False show ?thesis
    by (auto simp add: parseInt_val_def andThen_def number_to_string_def)
qed

lemma parseInt_val_safe:
  "\<bar>i\<bar> \<le> 2 ^ 53 \<Longrightarrow> parseInt_val e (js_int i) = Inr (js_int i)"
proof -
  assume "\<bar>i\<bar> \<le> 2 ^ 53"
  then have "\<bar>of_int i :: rat\<bar> \<le> of_int (2 ^ 53)"
    unfolding of_int_abs [symmetric] of_int_le_iff .
  then have "\<bar>of_int i :: rat\<bar> \<le> 2 ^ 53" by simp
  then show ?thesis
    by (simp add: parseInt_val_def js_int_def andThen_def number_to_string_def
        parseInt_dec_string)
qed

section \<open>The store: what the operations preserve\<close>

lemma findIndex_None: "findIndex P xs = None \<longleftrightarrow> (\<forall>x\<in>set xs. \<not> P x)"
  by (induction xs) auto

lemma findIndex_Some:
  "findIndex P xs = Some i \<Longrightarrow> i < length xs \<and> P (xs ! i) \<and> (\<forall>j<i. \<not> P (xs ! j))"
proof (induction xs arbitrary: i)
  case Nil
  then show ?case by simp
next
  case (Cons x xs)
  show ?case
  proof (cases "P x")
    case True
    with Cons.prems show ?thesis by simp
  next
    case False
    with Cons.prems obtain k where k: "findIndex P xs = Some k" "i = Suc k" by auto
    from Cons.IH [OF k(1)] False k(2) show ?thesis
      by (auto simp add: nth_Cons less_Suc_eq_0_disj)
  qed
qed

lemma set_splice: "set (take i xs @ drop (Suc i) xs) \<subseteq> set xs"
  by (auto dest: in_set_takeD in_set_dropD)

lemma distinct_map_splice:
  "distinct (map f xs) \<Longrightarrow> distinct (map f (take i xs @ drop (Suc i) xs))"
proof -
  assume d: "distinct (map f xs)"
  have "map f xs = map f (take i xs) @ map f (drop i xs)"
    by (simp flip: map_append)
  with d have d2: "distinct (map f (take i xs) @ map f (drop i xs))" by simp
  have sub: "set (drop (Suc i) xs) \<subseteq> set (drop i xs)"
    by (simp add: set_drop_subset_set_drop)
  have "distinct (map f (drop (Suc i) xs))"
    using d by (simp add: distinct_drop flip: drop_map)
  with d2 sub show ?thesis by auto
qed

lemma lastId_deleteById: "lastId (snd (deleteById i s)) = lastId s"
  by (simp add: deleteById_def split: option.splits)

lemma recipes_deleteById: "set (recipes (snd (deleteById i s))) \<subseteq> set (recipes s)"
  by (auto simp add: deleteById_def split: option.splits dest: in_set_takeD in_set_dropD)

lemma store_inv_deleteById: "store_inv s \<Longrightarrow> store_inv (snd (deleteById i s))"
proof (cases "findIndex (\<lambda>r. Some (recipe_id r) = parseInt i) (recipes s)")
  case None
  assume "store_inv s"
  with None show ?thesis by (simp add: deleteById_def)
next
  case (Some k)
  assume inv: "store_inv s"
  let ?rs = "take k (recipes s) @ drop (Suc k) (recipes s)"
  have rs: "recipes (snd (deleteById i s)) = ?rs"
    using Some by (simp add: deleteById_def)
  have "distinct (map recipe_id ?rs)"
    using inv by (intro distinct_map_splice) (simp add: store_inv_def)
  moreover have "\<forall>r\<in>set ?rs. 1 \<le> recipe_id r \<and> recipe_id r \<le> lastId s"
    using inv set_splice [of k "recipes s"] by (auto simp add: store_inv_def)
  moreover have "0 \<le> lastId s"
    using inv by (simp add: store_inv_def)
  ultimately show ?thesis
    unfolding store_inv_def rs lastId_deleteById by blast
qed

lemma add_facts:
  "lastId (snd (add cid c s)) = lastId s + 1"
  "recipes (snd (add cid c s)) = recipes s @ [fst (add cid c s)]"
  "fst (add cid c s) = \<lparr>recipe_id = lastId s + 1, content = c, cityId = cid\<rparr>"
  by (simp_all add: add_def Let_def)

lemma add_changes_store: "snd (add cid c s) \<noteq> s"
proof
  assume "snd (add cid c s) = s"
  then have "lastId (snd (add cid c s)) = lastId s" by simp
  then show False by (simp add: add_facts)
qed

lemma store_inv_add: "store_inv s \<Longrightarrow> store_inv (snd (add cid c s))"
  by (auto simp add: store_inv_def add_facts)

lemma store_inv_init: "store_inv recipeStorage_init"
  by (simp add: store_inv_def recipeStorage_init_def)

lemma run_ops_Add:
  "run_ops (Add cid c # ops) s =
     (fst (run_ops ops (snd (add cid c s))),
      (lastId s + 1) # snd (run_ops ops (snd (add cid c s))))"
  by (simp add: add_def Let_def split: prod.splits)

lemma run_ops_facts:
  "run_ops ops s = (t, ids) \<Longrightarrow>
     ids = map (\<lambda>k. lastId s + 1 + int k) [0..<length ids]
     \<and> lastId t = lastId s + int (length ids)
     \<and> recipe_id ` set (recipes t) \<subseteq> recipe_id ` set (recipes s) \<union> set ids"
proof (induction ops arbitrary: s t ids)
  case Nil
  then show ?case by simp
next
  case (Cons x ops)
  show ?case
  proof (cases x)
    case (Add cid c)
    obtain t' ids' where r: "run_ops ops (snd (add cid c s)) = (t', ids')"
      by (cases "run_ops ops (snd (add cid c s))") auto
    with Cons.prems Add have eq: "t = t'" "ids = (lastId s + 1) # ids'"
      by (simp_all add: run_ops_Add del: run_ops.simps)
    from Cons.IH [OF r] have
      a: "ids' = map (\<lambda>k. lastId s + 1 + 1 + int k) [0..<length ids']" and
      b: "lastId t' = lastId s + 1 + int (length ids')" and
      c: "recipe_id ` set (recipes t') \<subseteq> recipe_id ` set (recipes (snd (add cid c s))) \<union> set ids'"
      by (simp_all add: add_facts(1))
    have "ids = map (\<lambda>k. lastId s + 1 + int k) [0..<length ids]"
      unfolding eq(2) by (subst a) (simp add: map_upt_Suc del: upt_Suc)
    moreover have "lastId t = lastId s + int (length ids)"
      using b eq by simp
    moreover have "recipe_id ` set (recipes t) \<subseteq> recipe_id ` set (recipes s) \<union> set ids"
      using c eq by (auto simp add: add_facts)
    ultimately show ?thesis by blast
  next
    case (DeleteById i)
    with Cons.prems have r: "run_ops ops (snd (deleteById i s)) = (t, ids)" by simp
    have "recipe_id ` set (recipes (snd (deleteById i s))) \<subseteq> recipe_id ` set (recipes s)"
      by (rule image_mono) (rule recipes_deleteById)
    with Cons.IH [OF r] show ?thesis
      unfolding lastId_deleteById by blast
  qed
qed

lemma run_ops_store_inv:
  "store_inv s \<Longrightarrow> store_inv (fst (run_ops ops s))"
proof (induction ops arbitrary: s)
  case Nil
  then show ?case by simp
next
  case (Cons x ops)
  then show ?case
    by (cases x) (simp_all add: run_ops_Add store_inv_add store_inv_deleteById del: run_ops.simps(2))
qed

lemma run_ops_append:
  "run_ops (xs @ ys) s =
     (fst (run_ops ys (fst (run_ops xs s))),
      snd (run_ops xs s) @ snd (run_ops ys (fst (run_ops xs s))))"
proof (induction xs arbitrary: s)
  case Nil
  then show ?case by simp
next
  case (Cons x xs)
  show ?case
  proof (cases x)
    case (Add cid c)
    then show ?thesis
      by (simp add: run_ops_Add Cons.IH del: run_ops.simps(2))
  next
    case (DeleteById i)
    then show ?thesis by (simp add: Cons.IH)
  qed
qed

lemma lastId_run_ops_mono: "lastId s \<le> lastId (fst (run_ops ops s))"
  using run_ops_facts [of ops s "fst (run_ops ops s)" "snd (run_ops ops s)"] by simp

lemma find_distinct:
  "distinct (map f xs) \<Longrightarrow> x \<in> set xs \<Longrightarrow> find (\<lambda>r. f r = f x) xs = Some x"
  by (induction xs) (auto simp add: image_iff)

lemma find_Some_ex: "x \<in> set xs \<Longrightarrow> P x \<Longrightarrow> \<exists>y. find P xs = Some y \<and> P y"
  by (induction xs) auto

lemma fst_deleteById: "fst (deleteById a s) \<longleftrightarrow> (\<exists>r\<in>set (recipes s). Some (recipe_id r) = parseInt a)"
proof (cases "findIndex (\<lambda>r. Some (recipe_id r) = parseInt a) (recipes s)")
  case None
  have "deleteById a s = (False, s)"
    using None by (simp add: deleteById_def)
  moreover have "\<forall>x\<in>set (recipes s). Some (recipe_id x) \<noteq> parseInt a"
    using None by (simp add: findIndex_None)
  ultimately show ?thesis by auto
next
  case (Some k)
  from findIndex_Some [OF Some] have "recipes s ! k \<in> set (recipes s)"
    and "Some (recipe_id (recipes s ! k)) = parseInt a" by simp_all
  then have "\<exists>r\<in>set (recipes s). Some (recipe_id r) = parseInt a" by blast
  with Some show ?thesis by (simp add: deleteById_def)
qed

lemma find_append_last:
  "\<forall>x\<in>set xs. \<not> P x \<Longrightarrow> P y \<Longrightarrow> find P (xs @ [y]) = Some y"
  by (induction xs) auto

lemma findIndex_append_last:
  "\<forall>x\<in>set xs. \<not> P x \<Longrightarrow> P y \<Longrightarrow> findIndex P (xs @ [y]) = Some (length xs)"
  by (induction xs) auto

lemma add_then_lookup:
  assumes "store_inv s" and "add cid c s = (r, s1)"
  shows "getById (dec_string (recipe_id r)) s1 = Some r"
    and "recipes (snd (deleteById (dec_string (recipe_id r)) s1)) = recipes s"
    and "lastId (snd (deleteById (dec_string (recipe_id r)) s1)) = lastId s + 1"
    and "cityId r = cid"
    and "\<forall>x\<in>set (recipes s). recipe_id x \<noteq> recipe_id r"
proof -
  from assms(2) add_facts [of cid c s] have
    r: "r = \<lparr>recipe_id = lastId s + 1, content = c, cityId = cid\<rparr>" and
    s1: "recipes s1 = recipes s @ [r]" "lastId s1 = lastId s + 1"
    by simp_all
  from assms(1) have old: "\<forall>x\<in>set (recipes s). recipe_id x \<le> lastId s"
    by (simp add: store_inv_def)
  from r have rid: "recipe_id r = lastId s + 1" by simp
  from old rid show fresh: "\<forall>x\<in>set (recipes s). recipe_id x \<noteq> recipe_id r" by auto
  then have nm: "\<forall>x\<in>set (recipes s). \<not> (Some (recipe_id x) = Some (recipe_id r))" by simp
  show "getById (dec_string (recipe_id r)) s1 = Some r"
    unfolding getById_def parseInt_dec_string s1
    by (rule find_append_last [OF nm]) simp
  have fi: "findIndex (\<lambda>x. Some (recipe_id x) = Some (recipe_id r)) (recipes s @ [r])
      = Some (length (recipes s))"
    by (rule findIndex_append_last [OF nm]) simp
  show "recipes (snd (deleteById (dec_string (recipe_id r)) s1)) = recipes s"
    unfolding deleteById_def parseInt_dec_string s1 fi by simp
  show "lastId (snd (deleteById (dec_string (recipe_id r)) s1)) = lastId s + 1"
    by (simp add: lastId_deleteById s1)
  show "cityId r = cid" using r by simp
qed

lemma sample_store_value:
  "sample_store =
     \<lparr>recipes = [\<lparr>recipe_id = 1, content = JStr ''salt and pepper'', cityId = ''7''\<rparr>],
      lastId = 1\<rparr>"
  by (simp add: sample_store_def add_def Let_def recipeStorage_init_def)

section \<open>The handlers, case by case\<close>

lemma respond_sel [simp]:
  "sent (respond r s us) = r" "store (respond r s us) = s" "calls (respond r s us) = us"
  by (simp_all add: respond_def)

lemma ok_200: "ok 200"
  by (simp add: ok_def)

lemma not_ok_404: "\<not> ok 404"
  by (simp add: ok_def)

lemma replies_distinct:
  "city_not_found \<noteq> internal_error" "internal_error \<noteq> city_not_found"
  "city_not_found \<noteq> Reply 200 d" "Reply 200 d \<noteq> city_not_found"
  "internal_error \<noteq> Reply 200 d" "Reply 200 d \<noteq> internal_error"
  by (simp_all add: city_not_found_def internal_error_def)

lemma body_content_total: "\<exists>c. body_content body = Inr c"
  by (cases body) (auto simp add: body_content_def get_prop_def truthy_def)

lemma text_checks:
  "truthy (JStr t) = (t \<noteq> [])"
  "too_short e (JStr t) = Inr (length t < 10)"
  "too_long e (JStr t) = Inr (2000 < length t)"
  by (simp_all add: truthy_def too_short_def too_long_def get_prop_def andThen_def js_lt_def
      js_gt_def to_number_def js_int_def num_lt_def)

lemma delete_recipe_city_exists:
  "fetch e (city_url e cid) = Response st b \<Longrightarrow> ok st \<Longrightarrow>
     delete_recipe e cid rid s =
       (case getById rid s of
          None \<Rightarrow> respond (Reply 404 (error_body ''Recipe not found'')) s [city_url e cid]
        | Some r \<Rightarrow>
            if cityId r \<noteq> cid then
              respond (Reply 404 (error_body ''Recipe not found for this city'')) s [city_url e cid]
            else respond (Reply 204 JUndefined) (snd (deleteById rid s)) [city_url e cid])"
  by (simp add: delete_recipe_def Let_def)

lemma handlers_preserve_store_inv:
  assumes "store_inv s"
  shows "store_inv (store (post_recipe e cid body s))"
    and "store_inv (store (delete_recipe e cid rid s))"
    and "store (get_infos e cid s) = s"
    and "store (get_infos_validated e cid s) = s"
proof -
  have "store (post_recipe e cid body s) = s
      \<or> (\<exists>c. store (post_recipe e cid body s) = snd (add cid c s))"
    by (auto simp add: post_recipe_def Let_def split_beta
        split: sum.splits bool.splits fetch_result.splits)
  with assms show "store_inv (store (post_recipe e cid body s))"
    by (auto simp add: store_inv_add)
  have "store (delete_recipe e cid rid s) = s
      \<or> store (delete_recipe e cid rid s) = snd (deleteById rid s)"
    by (auto simp add: delete_recipe_def Let_def split: fetch_result.splits option.splits)
  with assms show "store_inv (store (delete_recipe e cid rid s))"
    by (auto simp add: store_inv_deleteById)
  show "store (get_infos e cid s) = s"
    by (auto simp add: get_infos_def Let_def
        split: fetch_result.splits option.splits sum.splits)
  show "store (get_infos_validated e cid s) = s"
    by (auto simp add: get_infos_validated_def Let_def
        split: fetch_result.splits option.splits sum.splits)
qed

lemma length_2_iff: "length xs = 2 \<longleftrightarrow> (\<exists>a b. xs = [a, b])"
  by (cases xs; cases "tl xs") auto

lemma validate_city_iff:
  "validate_city cd = Inr () \<longleftrightarrow>
     (\<exists>a b r ks. get_prop cd ''coordinates'' = Inr (JArr [JNum a, JNum b])
        \<and> get_prop cd ''population'' = Inr (JNum (Fin r)) \<and> of_int \<lfloor>r\<rfloor> = r
        \<and> get_prop cd ''knownFor'' = Inr (JArr ks))"
  by (auto simp add: validate_city_def andThen_def typeof_number_def Number_isInteger_def
      Array_isArray_def nth_or_undefined_def length_2_iff
      split: sum.splits jsval.splits jsnum.splits list.splits if_splits)

lemma validate_weather_iff:
  "validate_weather wd = Inr () \<longleftrightarrow>
     (\<exists>today tomorrow a b c d.
        get_prop wd ''today'' = Inr today \<and> truthy today
        \<and> get_prop wd ''tomorrow'' = Inr tomorrow \<and> truthy tomorrow
        \<and> get_prop today ''min'' = Inr (JNum a) \<and> get_prop today ''max'' = Inr (JNum b)
        \<and> get_prop tomorrow ''min'' = Inr (JNum c) \<and> get_prop tomorrow ''max'' = Inr (JNum d))"
  by (auto simp add: validate_weather_def andThen_def typeof_number_def
      split: sum.splits jsval.splits if_splits)

lemma validate_city_errors:
  "validate_city raw = Inr ()
   \<or> validate_city raw = Inl TypeError
   \<or> validate_city raw = Inl (Error ''Invalid coordinates format from City API'')
   \<or> validate_city raw = Inl (Error ''Invalid population format from City API'')
   \<or> validate_city raw = Inl (Error ''Invalid knownFor format from City API'')"
proof (cases raw)
  case JUndefined
  then show ?thesis by (simp add: validate_city_def andThen_def get_prop_def)
next
  case JNull
  then show ?thesis by (simp add: validate_city_def andThen_def get_prop_def)
next
  case (JBool x)
  then show ?thesis by (simp add: validate_city_def andThen_def get_prop_def)
next
  case (JNum x)
  then show ?thesis by (simp add: validate_city_def andThen_def get_prop_def)
next
  case (JStr x)
  then show ?thesis by (simp add: validate_city_def andThen_def get_prop_def js_int_def)
next
  case (JArr x)
  then show ?thesis by (simp add: validate_city_def andThen_def get_prop_def js_int_def)
next
  case (JObj ps)
  then show ?thesis by (simp add: validate_city_def andThen_def get_prop_def)
qed

lemma integer_iff: "of_int \<lfloor>r\<rfloor> = r \<longleftrightarrow> r \<in> \<int>" for r :: rat
  by (auto simp add: Ints_def)

lemma spec_numeric_iff: "spec_numeric v \<longleftrightarrow> (\<exists>n. v = JNum n)"
  by (cases v) (simp_all add: spec_numeric_def)

lemma spec_two_numeric_iff: "spec_two_numeric v \<longleftrightarrow> (\<exists>a b. v = JArr [JNum a, JNum b])"
proof (cases v)
  case (JArr xs)
  have "(length xs = 2 \<and> (\<forall>x\<in>set xs. spec_numeric x)) \<longleftrightarrow> (\<exists>a b. xs = [JNum a, JNum b])"
    unfolding length_2_iff spec_numeric_iff by auto
  with JArr show ?thesis by (simp add: spec_two_numeric_def)
qed (simp_all add: spec_two_numeric_def)

lemma spec_integer_iff: "spec_integer v \<longleftrightarrow> (\<exists>r. v = JNum (Fin r) \<and> r \<in> \<int>)"
proof (cases v)
  case (JNum n)
  then show ?thesis by (cases n) (simp_all add: spec_integer_def)
qed (simp_all add: spec_integer_def)

lemma spec_sequence_iff: "spec_sequence v \<longleftrightarrow> (\<exists>ks. v = JArr ks)"
  by (cases v) (simp_all add: spec_sequence_def)

lemma spec_field_iff: "spec_field raw k P \<longleftrightarrow> (\<exists>v. get_prop raw k = Inr v \<and> P v)"
  by (cases "get_prop raw k") (simp_all add: spec_field_def)

lemma spec_city_shape_iff:
  "spec_city_shape raw \<longleftrightarrow>
     (\<exists>a b r ks. get_prop raw ''coordinates'' = Inr (JArr [JNum a, JNum b])
        \<and> get_prop raw ''population'' = Inr (JNum (Fin r)) \<and> r \<in> \<int>
        \<and> get_prop raw ''knownFor'' = Inr (JArr ks))"
  unfolding spec_city_shape_def spec_field_iff spec_two_numeric_iff spec_integer_iff
    spec_sequence_iff by auto

lemma get_infos_validated_replies:
  "sent (get_infos_validated e cid s) = city_not_found
   \<or> sent (get_infos_validated e cid s) = internal_error
   \<or> (\<exists>d. sent (get_infos_validated e cid s) = Reply 200 d)"
  by (auto simp add: get_infos_validated_def Let_def catch_def andThen_def
      split: fetch_result.splits option.splits sum.splits)

lemma get_infos_replies:
  "sent (get_infos e cid s) = city_not_found
   \<or> sent (get_infos e cid s) = internal_error
   \<or> (\<exists>d. sent (get_infos e cid s) = Reply 200 d)"
  by (auto simp add: get_infos_def Let_def catch_def andThen_def
      split: fetch_result.splits option.splits sum.splits)

lemma get_infos_validated_not_found_iff:
  "sent (get_infos_validated e cid s) = city_not_found
     \<longleftrightarrow> (\<exists>b. fetch e (insights_url e cid) = Response 404 b)"
  using not_ok_404
  by (auto simp add: get_infos_validated_def Let_def catch_def andThen_def replies_distinct
      split: fetch_result.splits option.splits sum.splits)

lemma get_infos_not_found_iff:
  "sent (get_infos e cid s) = city_not_found
     \<longleftrightarrow> (\<exists>b. fetch e (city_url e cid) = Response 404 b)"
  using not_ok_404
  by (auto simp add: get_infos_def Let_def catch_def andThen_def replies_distinct
      split: fetch_result.splits option.splits sum.splits)

lemma weather_url_valid:
  "get_prop cd ''coordinates'' = Inr (JArr [JNum a, JNum b]) \<Longrightarrow>
     weather_url e cd =
       Inr (WEATHER_API_BASE_URL e @ ''?lat='' @ number_to_string e a @ ''&lon=''
              @ number_to_string e b @ ''&apiKey='' @ API_KEY e)"
  by (simp add: weather_url_def andThen_def get_index_def)

lemma map_exn_js_String:
  "map_exn (js_String e) ks = (case map_exn (to_string e) ks of Inl x \<Rightarrow> Inl x | Inr ts \<Rightarrow> Inr (map JStr ts))"
  by (induction ks) (auto simp add: js_String_def andThen_def split: sum.splits)

lemma city_fields_valid:
  assumes "get_prop cd ''coordinates'' = Inr (JArr [JNum a, JNum b])"
    and "get_prop cd ''population'' = Inr p"
    and "get_prop cd ''knownFor'' = Inr (JArr ks)"
    and "parseInt_val e p = Inr q"
    and "map_exn (to_string e) ks = Inr ts"
  shows "city_fields e cd = Inr (JArr [JNum a, JNum b], q, JArr (map JStr ts))"
  using assms
  by (simp add: city_fields_def andThen_def get_index_def js_Number_def to_number_def
      map_exn_js_String)

lemma weather_fields_valid:
  assumes "get_prop wd ''today'' = Inr today" and "get_prop wd ''tomorrow'' = Inr tomorrow"
    and "get_prop today ''min'' = Inr (JNum a)" and "get_prop today ''max'' = Inr (JNum b)"
    and "get_prop tomorrow ''min'' = Inr (JNum c)" and "get_prop tomorrow ''max'' = Inr (JNum d)"
  shows "weather_fields e wd =
           Inr (prediction ''today'' (JNum a) (JNum b), prediction ''tomorrow'' (JNum c) (JNum d))"
  using assms
  by (simp add: weather_fields_def andThen_def js_Number_def to_number_def)

lemma infos_response_valid:
  assumes "get_prop cd ''coordinates'' = Inr co"
    and "get_prop cd ''population'' = Inr p"
    and "get_prop cd ''knownFor'' = Inr kf"
    and "get_prop wd ''today'' = Inr today" and "get_prop wd ''tomorrow'' = Inr tomorrow"
    and "get_prop today ''min'' = Inr a" and "get_prop today ''max'' = Inr b"
    and "get_prop tomorrow ''min'' = Inr c" and "get_prop tomorrow ''max'' = Inr d"
  shows "infos_response cd wd rs =
           Inr (infos_document co p kf (prediction ''today'' a b) (prediction ''tomorrow'' c d)
                  (JArr (map recipe_entry rs)))"
  using assms by (simp add: infos_response_def andThen_def)

lemma get_prop_recipes:
  "get_prop (infos_document co p kf today tomorrow rs) ''recipes'' = Inr rs"
  by (simp add: infos_document_def get_prop_def)

lemma infos_response_recipes:
  "infos_response cd wd rs = Inr d \<Longrightarrow> get_prop d ''recipes'' = Inr (JArr (map recipe_entry rs))"
  by (auto simp add: infos_response_def andThen_def get_prop_recipes split: sum.splits)

lemma infos_response_validated_recipes:
  "infos_response_validated e cd wd rs = Inr d \<Longrightarrow>
     \<exists>listed. map_exn (listed_recipe e) rs = Inr listed \<and> get_prop d ''recipes'' = Inr (JArr listed)"
  by (auto simp add: infos_response_validated_def andThen_def get_prop_recipes
      split: sum.splits prod.splits)

lemma get_infos_lists:
  "sent (get_infos e cid s) = Reply 200 d \<Longrightarrow>
     get_prop d ''recipes'' = Inr (JArr (map recipe_entry (getByCityId cid s)))"
  by (auto simp add: get_infos_def Let_def catch_def andThen_def city_not_found_def
      internal_error_def infos_response_recipes
      split: fetch_result.splits option.splits sum.splits if_splits)

lemma get_infos_validated_lists:
  "sent (get_infos_validated e cid s) = Reply 200 d \<Longrightarrow>
     \<exists>listed. map_exn (listed_recipe e) (getByCityId cid s) = Inr listed
        \<and> get_prop d ''recipes'' = Inr (JArr listed)"
  by (auto simp add: get_infos_validated_def Let_def catch_def andThen_def city_not_found_def
      internal_error_def infos_response_validated_recipes
      split: fetch_result.splits option.splits sum.splits if_splits)

lemma map_exn_set:
  "map_exn f xs = Inr ys \<Longrightarrow> y \<in> set ys \<Longrightarrow> \<exists>x\<in>set xs. f x = Inr y"
  by (induction xs arbitrary: ys) (auto split: sum.splits)

lemma js_int_inj: "js_int i = js_int j \<longleftrightarrow> i = j"
  by (simp add: js_int_def)

lemma recipe_entry_id: "get_prop (recipe_entry x) ''id'' = Inr (js_int (recipe_id x))"
  by (simp add: recipe_entry_def get_prop_def)

lemma listed_recipe_id:
  "listed_recipe e x = Inr y \<Longrightarrow> \<bar>recipe_id x\<bar> \<le> 2 ^ 53 \<Longrightarrow>
     get_prop y ''id'' = Inr (js_int (recipe_id x))"
  by (auto simp add: listed_recipe_def andThen_def parseInt_val_safe get_prop_def
      split: sum.splits)

section \<open>The example inputs, evaluated\<close>

lemmas sample_defs =
  sample_city_def sample_weather_def sample_fetch_def missing_fetch_def sample_number_text_def
  sample_string_number_def sample_env_def poisoned_content_def sample_store_def
  recipeStorage_init_def

lemmas js_defs =
  get_prop_def get_index_def truthy_def andThen_def js_int_def to_number_def num_lt_def
  js_lt_def js_gt_def number_to_string_def dec_string_def digits.simps digit_char_values
  typeof_number_def Array_isArray_def Number_isInteger_def nth_or_undefined_def
  parseInt_val_def js_Number_def js_String_def

lemmas handler_defs =
  respond_def error_body_def city_not_found_def internal_error_def catch_def city_url_def
  insights_url_def weather_url_def prediction_def infos_document_def recipe_entry_def
  body_content_def too_short_def too_long_def created_def ok_def add_def Let_def
  getByCityId_def getById_def deleteById_def

lemma runtime_ok_sample: "runtime_ok (sample_env f)"
  by (simp add: runtime_ok_def sample_env_def sample_number_text_def numeric_text_def
      digit_value_def)

lemma sample_city_valid: "validate_city sample_city = Inr ()"
  by (simp add: validate_city_def sample_defs js_defs)

lemma sample_weather_valid: "validate_weather sample_weather = Inr ()"
  by (simp add: validate_weather_def sample_defs js_defs)

lemma sample_weather_url:
  "weather_url (sample_env f) sample_city =
     Inr ''https://api-ugi2pflmha-ew.a.run.app/weather?lat=48&lon=2&apiKey=key''"
  by (simp add: sample_defs js_defs handler_defs)

lemma sample_city_fetch:
  "fetch (sample_env sample_fetch) (city_url (sample_env sample_fetch) ''7'')
     = Response 200 (Some sample_city)"
  "fetch (sample_env sample_fetch) (city_url (sample_env sample_fetch) ''8'')
     = Response 200 (Some sample_city)"
  "fetch (sample_env sample_fetch) (insights_url (sample_env sample_fetch) ''7'')
     = Response 200 (Some sample_city)"
  "fetch (sample_env sample_fetch)
     ''https://api-ugi2pflmha-ew.a.run.app/weather?lat=48&lon=2&apiKey=key''
     = Response 200 (Some sample_weather)"
  "fetch (sample_env missing_fetch) u = Response 404 None"
  "fetch (sample_env sample_fetch) ''https://api-ugi2pflmha-ew.a.run.app/cities/7?apiKey=key''
     = Response 200 (Some sample_city)"
  "fetch (sample_env sample_fetch) ''https://api-ugi2pflmha-ew.a.run.app/cities/8?apiKey=key''
     = Response 200 (Some sample_city)"
  "fetch (sample_env sample_fetch)
     ''https://api-ugi2pflmha-ew.a.run.app/cities/7/insights?apiKey=key''
     = Response 200 (Some sample_city)"
  by (simp_all add: sample_env_def sample_fetch_def missing_fetch_def city_url_def insights_url_def)

lemma sample_urls:
  "city_url (sample_env f) ''7'' = ''https://api-ugi2pflmha-ew.a.run.app/cities/7?apiKey=key''"
  "city_url (sample_env f) ''8'' = ''https://api-ugi2pflmha-ew.a.run.app/cities/8?apiKey=key''"
  "insights_url (sample_env f) ''7''
     = ''https://api-ugi2pflmha-ew.a.run.app/cities/7/insights?apiKey=key''"
  by (simp_all add: sample_env_def city_url_def insights_url_def)

lemma sample_post:
  "post_recipe (sample_env sample_fetch) ''7'' (JObj [(''content'', poisoned_content)])
     recipeStorage_init
   = respond (Reply 201 (JObj [(''id'', js_int 1), (''content'', poisoned_content)]))
       \<lparr>recipes = [\<lparr>recipe_id = 1, content = poisoned_content, cityId = ''7''\<rparr>], lastId = 1\<rparr>
       [''https://api-ugi2pflmha-ew.a.run.app/cities/7?apiKey=key'']"
  by (simp add: post_recipe_def sample_defs js_defs handler_defs)

lemma poisoned_store_value:
  "poisoned_store =
     \<lparr>recipes = [\<lparr>recipe_id = 1, content = poisoned_content, cityId = ''7''\<rparr>], lastId = 1\<rparr>"
  by (simp add: poisoned_store_def add_def Let_def recipeStorage_init_def)

lemma poisoned_listed:
  "listed_recipe e \<lparr>recipe_id = 1, content = poisoned_content, cityId = ''7''\<rparr> = Inl TypeError"
  by (simp add: listed_recipe_def poisoned_content_def js_defs parseInt_def is_space_def
      digit_value_def radix_value_def)


lemma get_infos_validated_500_iff:
  "sent (get_infos_validated e cid s) = internal_error \<longleftrightarrow>
     city_upstream_error e (insights_url e cid)
     \<or> shape_error e (insights_url e cid) validate_city
     \<or> (\<exists>st cd wurl. fetch e (insights_url e cid) = Response st (Some cd) \<and> ok st
           \<and> validate_city cd = Inr () \<and> weather_url e cd = Inr wurl
           \<and> (weather_upstream_error e wurl
               \<or> shape_error e wurl validate_weather
               \<or> (\<exists>wst wd x. fetch e wurl = Response wst (Some wd) \<and> ok wst
                     \<and> validate_weather wd = Inr ()
                     \<and> infos_response_validated e cd wd (getByCityId cid s) = Inl x)))"
proof (cases "fetch e (insights_url e cid)")
  case NetworkFailure
  then show ?thesis
    by (simp add: get_infos_validated_def Let_def city_upstream_error_def)
next
  case (Response st b)
  show ?thesis
  proof (cases "ok st")
    case False
    with Response show ?thesis
      by (auto simp add: get_infos_validated_def Let_def city_upstream_error_def
          shape_error_def replies_distinct)
  next
    case True
    then have st: "st \<noteq> 404" using not_ok_404 by auto
    show ?thesis
    proof (cases b)
      case None
      with Response True show ?thesis
        by (simp add: get_infos_validated_def Let_def shape_error_def)
    next
      case (Some cd)
      show ?thesis
      proof (cases "validate_city cd")
        case (Inl x)
        with Response True Some show ?thesis
          by (simp add: get_infos_validated_def Let_def shape_error_def andThen_def)
      next
        case (Inr u)
        then have v: "validate_city cd = Inr ()" by simp
        then obtain a b' where "get_prop cd ''coordinates'' = Inr (JArr [JNum a, JNum b'])"
          unfolding validate_city_iff by blast
        from weather_url_valid [OF this, of e] obtain wurl where w: "weather_url e cd = Inr wurl"
          by blast
        have cse: "\<not> city_upstream_error e (insights_url e cid)"
          "\<not> shape_error e (insights_url e cid) validate_city"
          using Response True Some v by (simp_all add: city_upstream_error_def shape_error_def)
        have red: "get_infos_validated e cid s =
            (case fetch e wurl of
               NetworkFailure \<Rightarrow> respond internal_error s [insights_url e cid, wurl]
             | Response wst wb \<Rightarrow>
                 if \<not> ok wst then respond internal_error s [insights_url e cid, wurl]
                 else (case wb of
                         None \<Rightarrow> respond internal_error s [insights_url e cid, wurl]
                       | Some weatherData \<Rightarrow>
                           respond
                             (catch (andThen (validate_weather weatherData) (\<lambda>u.
                                andThen
                                  (infos_response_validated e cd weatherData (getByCityId cid s))
                                  (\<lambda>r. Inr (Reply 200 r)))))
                             s [insights_url e cid, wurl]))"
          using Response True Some v w by (simp add: get_infos_validated_def Let_def andThen_def)
        have "sent (get_infos_validated e cid s) = internal_error \<longleftrightarrow>
            weather_upstream_error e wurl \<or> shape_error e wurl validate_weather
            \<or> (\<exists>wst wd x. fetch e wurl = Response wst (Some wd) \<and> ok wst
                  \<and> validate_weather wd = Inr ()
                  \<and> infos_response_validated e cd wd (getByCityId cid s) = Inl x)"
          unfolding red
          by (auto simp add: weather_upstream_error_def shape_error_def catch_def andThen_def
              replies_distinct split: fetch_result.splits option.splits sum.splits)
        with cse Response True Some v w show ?thesis by auto
      qed
    qed
  qed
qed

section \<open>Recipe ids\<close>

text \<open>
  Claim C1. Run any list of \<open>add\<close> and \<open>deleteById\<close> operations on the empty store, and
  let \<open>ids\<close> be the ids that the \<open>add\<close>s handed out, in order. The k-th of them (from 0)
  is \<open>k + 1\<close>: they start at 1, are strictly increasing, and none is handed out twice,
  whatever was deleted in between. Every stored id is one of them and is at most
  \<open>lastId\<close>, the stored ids are distinct, \<open>lastId\<close> is the number of \<open>add\<close>s so far,
  and at no earlier point of the run was \<open>lastId\<close> greater than at the end.
\<close>

theorem recipe_ids_increasing_never_reused:
  "run_ops ops recipeStorage_init = (t, ids) \<Longrightarrow>
     ids = map (\<lambda>k. int k + 1) [0..<length ids]
     \<and> sorted_wrt (<) ids \<and> distinct ids
     \<and> (\<forall>r\<in>set (recipes t). recipe_id r \<in> set ids \<and> recipe_id r \<le> lastId t)
     \<and> distinct (map recipe_id (recipes t))
     \<and> lastId t = int (length ids)
     \<and> lastId (fst (run_ops (take n ops) recipeStorage_init)) \<le> lastId t"
proof -
  assume run: "run_ops ops recipeStorage_init = (t, ids)"
  from run_ops_facts [OF run] have
    a: "ids = map (\<lambda>k. int k + 1) [0..<length ids]" and
    b: "lastId t = int (length ids)" and
    c: "recipe_id ` set (recipes t) \<subseteq> set ids"
    by (simp_all add: recipeStorage_init_def add.commute)
  have inv: "store_inv t"
    using run_ops_store_inv [OF store_inv_init, of ops] run by simp
  have "sorted_wrt (\<lambda>x y. int x + 1 < int y + 1) [0..<length ids]"
    by (rule sorted_wrt_mono_rel [OF _ sorted_wrt_upt]) simp
  then have "sorted_wrt (<) (map (\<lambda>k. int k + 1) [0..<length ids])"
    by (simp only: sorted_wrt_map)
  with a have s: "sorted_wrt (<) ids" by simp
  then have d: "distinct ids"
    by (simp add: strict_sorted_iff)
  have "ops = take n ops @ drop n ops" by simp
  then have "fst (run_ops ops recipeStorage_init) =
      fst (run_ops (drop n ops) (fst (run_ops (take n ops) recipeStorage_init)))"
    using run_ops_append [of "take n ops" "drop n ops" recipeStorage_init] by simp
  with run have "t = fst (run_ops (drop n ops) (fst (run_ops (take n ops) recipeStorage_init)))"
    by simp
  then have m: "lastId (fst (run_ops (take n ops) recipeStorage_init)) \<le> lastId t"
    using lastId_run_ops_mono by simp
  from a s d b c inv m show ?thesis
    by (auto simp add: store_inv_def)
qed

theorem recipe_ids_increasing_never_reused_witness:
  "run_ops [Add ''7'' (JStr ''salt and pepper''), DeleteById ''1'',
            Add ''7'' (JStr ''more pepper here'')] recipeStorage_init
     = (\<lparr>recipes = [\<lparr>recipe_id = 2, content = JStr ''more pepper here'', cityId = ''7''\<rparr>],
         lastId = 2\<rparr>, [1, 2])
   \<and> [1, 2 :: int] = map (\<lambda>k. int k + 1) [0..<length [1, 2 :: int]]
   \<and> sorted_wrt (<) [1, 2 :: int] \<and> distinct [1, 2 :: int]
   \<and> lastId (fst (run_ops (take 1 [Add ''7'' (JStr ''salt and pepper''), DeleteById ''1'',
            Add ''7'' (JStr ''more pepper here'')]) recipeStorage_init)) \<le> 2"
proof -
  have h: "run_ops [Add ''7'' (JStr ''salt and pepper''), DeleteById ''1'',
            Add ''7'' (JStr ''more pepper here'')] recipeStorage_init
     = (\<lparr>recipes = [\<lparr>recipe_id = 2, content = JStr ''more pepper here'', cityId = ''7''\<rparr>],
         lastId = 2\<rparr>, [1, 2])"
    by (simp add: recipeStorage_init_def add_def Let_def deleteById_def parseInt_def
        is_space_def digit_value_def radix_value_def)
  from recipe_ids_increasing_never_reused [OF h, of 1] h show ?thesis by simp
qed

section \<open>The document of GET /cities/:cityId/infos\<close>

text \<open>
  Let both fetches answer with a success status and a parsed body, and let the
  city payload and the forecast pass the checks of the validating handler. If moreover
  the conversion to text of every knownFor entry and of every recipe stored for the city
  succeeds, and the runtime is in order, the validating handler replies 200 with a
  document whose coordinates are an array of two Numbers, whose population is an integer,
  whose knownFor entries are texts, and whose weatherPredictions are exactly the entry for
  \<open>today\<close> followed by the entry for \<open>tomorrow\<close>, each with Numbers for \<open>min\<close> and
  \<open>max\<close>. The handler of src/index.js, which converts nothing, replies 200 with a
  document of that shape for the same payloads, whatever the store holds.
\<close>

theorem infos_document_when_all_succeeds:
  assumes "validate_city cd = Inr ()"
    and "weather_url e cd = Inr wurl"
    and "fetch e wurl = Response wst (Some wd)" and "ok wst"
    and "validate_weather wd = Inr ()"
    and "ok st"
  shows "(runtime_ok e \<and> fetch e (insights_url e cid) = Response st (Some cd)
          \<and> get_prop cd ''knownFor'' = Inr (JArr ks) \<and> map_exn (to_string e) ks = Inr ts
          \<and> map_exn (listed_recipe e) (getByCityId cid s) = Inr listed \<longrightarrow>
          (\<exists>a b k ta tb tc td.
             get_infos_validated e cid s =
               respond
                 (Reply 200
                    (infos_document (JArr [JNum a, JNum b]) (js_int k) (JArr (map JStr ts))
                       (prediction ''today'' (JNum ta) (JNum tb))
                       (prediction ''tomorrow'' (JNum tc) (JNum td)) (JArr listed)))
                 s [insights_url e cid, wurl]))
       \<and> (fetch e (city_url e cid) = Response st (Some cd) \<longrightarrow>
          (\<exists>a b k kf ta tb tc td.
             get_infos e cid s =
               respond
                 (Reply 200
                    (infos_document (JArr [JNum a, JNum b]) (js_int k) (JArr kf)
                       (prediction ''today'' (JNum ta) (JNum tb))
                       (prediction ''tomorrow'' (JNum tc) (JNum td))
                       (JArr (map recipe_entry (getByCityId cid s)))))
                 s [city_url e cid, wurl]))"
proof -
  from assms(1) obtain a b r ks' where
    co: "get_prop cd ''coordinates'' = Inr (JArr [JNum a, JNum b])" and
    po: "get_prop cd ''population'' = Inr (JNum (Fin r))" and
    ri: "of_int \<lfloor>r\<rfloor> = r" and
    kf: "get_prop cd ''knownFor'' = Inr (JArr ks')"
    unfolding validate_city_iff by blast
  from assms(5) obtain today tomorrow ta tb tc td where
    w: "get_prop wd ''today'' = Inr today" "get_prop wd ''tomorrow'' = Inr tomorrow"
       "get_prop today ''min'' = Inr (JNum ta)" "get_prop today ''max'' = Inr (JNum tb)"
       "get_prop tomorrow ''min'' = Inr (JNum tc)" "get_prop tomorrow ''max'' = Inr (JNum td)"
    unfolding validate_weather_iff by blast
  have first: "runtime_ok e \<and> fetch e (insights_url e cid) = Response st (Some cd)
          \<and> get_prop cd ''knownFor'' = Inr (JArr ks) \<and> map_exn (to_string e) ks = Inr ts
          \<and> map_exn (listed_recipe e) (getByCityId cid s) = Inr listed \<longrightarrow>
          (\<exists>a b k ta tb tc td.
             get_infos_validated e cid s =
               respond
                 (Reply 200
                    (infos_document (JArr [JNum a, JNum b]) (js_int k) (JArr (map JStr ts))
                       (prediction ''today'' (JNum ta) (JNum tb))
                       (prediction ''tomorrow'' (JNum tc) (JNum td)) (JArr listed)))
                 s [insights_url e cid, wurl])"
  proof
    assume h: "runtime_ok e \<and> fetch e (insights_url e cid) = Response st (Some cd)
          \<and> get_prop cd ''knownFor'' = Inr (JArr ks) \<and> map_exn (to_string e) ks = Inr ts
          \<and> map_exn (listed_recipe e) (getByCityId cid s) = Inr listed"
    from h have "runtime_ok e" by simp
    from parseInt_val_integer [OF this ri] obtain k where
      k: "parseInt_val e (JNum (Fin r)) = Inr (js_int k)" by blast
    from h kf have ks: "ks' = ks" by simp
    from h have ts: "map_exn (to_string e) ks = Inr ts" by simp
    have cf: "city_fields e cd = Inr (JArr [JNum a, JNum b], js_int k, JArr (map JStr ts))"
      using co po kf k ts unfolding ks by (rule city_fields_valid)
    have wf: "weather_fields e wd =
        Inr (prediction ''today'' (JNum ta) (JNum tb), prediction ''tomorrow'' (JNum tc) (JNum td))"
      using w by (rule weather_fields_valid)
    from h have "get_infos_validated e cid s =
               respond
                 (Reply 200
                    (infos_document (JArr [JNum a, JNum b]) (js_int k) (JArr (map JStr ts))
                       (prediction ''today'' (JNum ta) (JNum tb))
                       (prediction ''tomorrow'' (JNum tc) (JNum td)) (JArr listed)))
                 s [insights_url e cid, wurl]"
      using assms
      by (simp add: get_infos_validated_def Let_def andThen_def catch_def
          infos_response_validated_def cf wf)
    then show "\<exists>a b k ta tb tc td.
             get_infos_validated e cid s =
               respond
                 (Reply 200
                    (infos_document (JArr [JNum a, JNum b]) (js_int k) (JArr (map JStr ts))
                       (prediction ''today'' (JNum ta) (JNum tb))
                       (prediction ''tomorrow'' (JNum tc) (JNum td)) (JArr listed)))
                 s [insights_url e cid, wurl]" by blast
  qed
  have second: "fetch e (city_url e cid) = Response st (Some cd) \<longrightarrow>
          (\<exists>a b k kf ta tb tc td.
             get_infos e cid s =
               respond
                 (Reply 200
                    (infos_document (JArr [JNum a, JNum b]) (js_int k) (JArr kf)
                       (prediction ''today'' (JNum ta) (JNum tb))
                       (prediction ''tomorrow'' (JNum tc) (JNum td))
                       (JArr (map recipe_entry (getByCityId cid s)))))
                 s [city_url e cid, wurl])"
  proof
    assume h: "fetch e (city_url e cid) = Response st (Some cd)"
    have p: "JNum (Fin r) = js_int \<lfloor>r\<rfloor>"
      unfolding js_int_def ri ..
    have "infos_response cd wd (getByCityId cid s) =
        Inr (infos_document (JArr [JNum a, JNum b]) (js_int \<lfloor>r\<rfloor>) (JArr ks')
               (prediction ''today'' (JNum ta) (JNum tb))
               (prediction ''tomorrow'' (JNum tc) (JNum td))
               (JArr (map recipe_entry (getByCityId cid s))))"
      using co po kf w unfolding p by (rule infos_response_valid)
    with h assms have "get_infos e cid s =
               respond
                 (Reply 200
                    (infos_document (JArr [JNum a, JNum b]) (js_int \<lfloor>r\<rfloor>) (JArr ks')
                       (prediction ''today'' (JNum ta) (JNum tb))
                       (prediction ''tomorrow'' (JNum tc) (JNum td))
                       (JArr (map recipe_entry (getByCityId cid s)))))
                 s [city_url e cid, wurl]"
      by (simp add: get_infos_def Let_def andThen_def catch_def)
    then show "\<exists>a b k kf ta tb tc td.
             get_infos e cid s =
               respond
                 (Reply 200
                    (infos_document (JArr [JNum a, JNum b]) (js_int k) (JArr kf)
                       (prediction ''today'' (JNum ta) (JNum tb))
                       (prediction ''tomorrow'' (JNum tc) (JNum td))
                       (JArr (map recipe_entry (getByCityId cid s)))))
                 s [city_url e cid, wurl]" by blast
  qed
  from first second show ?thesis by blast
qed

theorem infos_document_when_all_succeeds_witness:
  "(\<exists>a b k ta tb tc td.
      get_infos_validated (sample_env sample_fetch) ''7'' sample_store =
        respond
          (Reply 200
             (infos_document (JArr [JNum a, JNum b]) (js_int k) (JArr (map JStr [''bread'']))
                (prediction ''today'' (JNum ta) (JNum tb))
                (prediction ''tomorrow'' (JNum tc) (JNum td))
                (JArr [JObj [(''id'', js_int 1), (''content'', JStr ''salt and pepper'')]])))
          sample_store
          [''https://api-ugi2pflmha-ew.a.run.app/cities/7/insights?apiKey=key'',
           ''https://api-ugi2pflmha-ew.a.run.app/weather?lat=48&lon=2&apiKey=key''])
   \<and> (\<exists>a b k kf ta tb tc td.
      get_infos (sample_env sample_fetch) ''7'' sample_store =
        respond
          (Reply 200
             (infos_document (JArr [JNum a, JNum b]) (js_int k) (JArr kf)
                (prediction ''today'' (JNum ta) (JNum tb))
                (prediction ''tomorrow'' (JNum tc) (JNum td))
                (JArr (map recipe_entry (getByCityId ''7'' sample_store)))))
          sample_store
          [''https://api-ugi2pflmha-ew.a.run.app/cities/7?apiKey=key'',
           ''https://api-ugi2pflmha-ew.a.run.app/weather?lat=48&lon=2&apiKey=key''])"
proof -
  have k: "get_prop sample_city ''knownFor'' = Inr (JArr [JStr ''bread''])"
    by (simp add: sample_city_def get_prop_def)
  have t: "map_exn (to_string (sample_env sample_fetch)) [JStr ''bread''] = Inr [''bread'']"
    by simp
  have l: "map_exn (listed_recipe (sample_env sample_fetch)) (getByCityId ''7'' sample_store)
      = Inr [JObj [(''id'', js_int 1), (''content'', JStr ''salt and pepper'')]]"
    by (simp add: sample_store_value getByCityId_def listed_recipe_def js_defs parseInt_def
        is_space_def digit_value_def radix_value_def)
  show ?thesis
    using infos_document_when_all_succeeds
      [where e = "sample_env sample_fetch" and cid = "''7''" and ks = "[JStr ''bread'']"
         and ts = "[''bread'']" and s = sample_store
         and listed = "[JObj [(''id'', js_int 1), (''content'', JStr ''salt and pepper'')]]",
       OF sample_city_valid sample_weather_url sample_city_fetch(4) ok_200 sample_weather_valid
         ok_200]
      runtime_ok_sample [of sample_fetch] sample_city_fetch k t l
    by (simp add: sample_urls)
qed

text \<open>
  Claim C2. Whenever both fetches and the validation succeed, the GET handler is to reply
  200 with a document whose coordinates are two Numbers, whose population is an integer
  and whose weatherPredictions are the entries for \<open>today\<close> and \<open>tomorrow\<close>. The
  validating handler does not always: the POST handler accepts a content that is an
  object with a \<open>length\<close> of 12 and a \<open>toString\<close> property and replies 201;
  \<open>String\<close> throws on that content, so the next GET for the city replies 500, although
  both fetches answer 200 and both payloads pass the checks.
\<close>

theorem infos_500_despite_valid_upstream:
  "fetch (sample_env sample_fetch) (insights_url (sample_env sample_fetch) ''7'')
     = Response 200 (Some sample_city)
   \<and> ok 200
   \<and> validate_city sample_city = Inr ()
   \<and> weather_url (sample_env sample_fetch) sample_city
       = Inr ''https://api-ugi2pflmha-ew.a.run.app/weather?lat=48&lon=2&apiKey=key''
   \<and> fetch (sample_env sample_fetch)
        ''https://api-ugi2pflmha-ew.a.run.app/weather?lat=48&lon=2&apiKey=key''
       = Response 200 (Some sample_weather)
   \<and> validate_weather sample_weather = Inr ()
   \<and> sent (post_recipe (sample_env sample_fetch) ''7'' (JObj [(''content'', poisoned_content)])
              recipeStorage_init)
       = Reply 201 (JObj [(''id'', js_int 1), (''content'', poisoned_content)])
   \<and> sent (get_infos_validated (sample_env sample_fetch) ''7''
              (store (post_recipe (sample_env sample_fetch) ''7''
                        (JObj [(''content'', poisoned_content)]) recipeStorage_init)))
       = Reply 500 (error_body ''Internal server error'')"
proof -
  have f1: "fetch (sample_env sample_fetch) (insights_url (sample_env sample_fetch) ''7'')
     = Response 200 (Some sample_city)"
    by (simp add: sample_env_def sample_fetch_def insights_url_def)
  have f2: "fetch (sample_env sample_fetch)
        ''https://api-ugi2pflmha-ew.a.run.app/weather?lat=48&lon=2&apiKey=key''
       = Response 200 (Some sample_weather)"
    by (simp add: sample_env_def sample_fetch_def)
  have l: "listed_recipe (sample_env sample_fetch)
      \<lparr>recipe_id = 1, content = poisoned_content, cityId = ''7''\<rparr> = Inl TypeError"
    by (simp add: listed_recipe_def poisoned_content_def js_defs parseInt_def is_space_def
        digit_value_def radix_value_def)
  have g: "sent (get_infos_validated (sample_env sample_fetch) ''7''
      \<lparr>recipes = [\<lparr>recipe_id = 1, content = poisoned_content, cityId = ''7''\<rparr>], lastId = 1\<rparr>)
    = Reply 500 (error_body ''Internal server error'')"
    by (simp add: get_infos_validated_def Let_def f1 f2 sample_city_valid sample_weather_valid
        sample_weather_url andThen_def ok_def infos_response_validated_def getByCityId_def l
        catch_def internal_error_def)
  show ?thesis
    using f1 f2 g
    by (simp add: sample_post sample_city_valid sample_weather_valid sample_weather_url ok_def)
qed

theorem infos_500_despite_valid_upstream_witness:
  "sent (get_infos_validated (sample_env sample_fetch) ''7''
           (store (post_recipe (sample_env sample_fetch) ''7''
                     (JObj [(''content'', poisoned_content)]) recipeStorage_init)))
     = Reply 500 (error_body ''Internal server error'')"
  using infos_500_despite_valid_upstream by simp

section \<open>The checks of POST /cities/:cityId/recipes\<close>

text \<open>
  Claim C3. The POST handler checks the content in a fixed order. A content that is not
  truthy (absent, or the empty text) gets 400 \<open>Content is required\<close>; otherwise a
  content whose length is below 10 gets 400
  \<open>Content is too short (minimum 10 characters)\<close>; otherwise a content whose length
  is above 2000 gets 400 \<open>Content is too long (maximum 2000 characters)\<close>. Whenever
  the reply is a 400, no URL has been fetched and the store is as it was. For a text, the
  three checks are \<open>t = []\<close>, \<open>length t < 10\<close> and \<open>2000 < length t\<close>.
\<close>

theorem post_validation_order:
  "body_content body = Inr c \<Longrightarrow>
     (\<not> truthy c \<longrightarrow>
        post_recipe e cid body s = respond (Reply 400 (error_body ''Content is required'')) s [])
   \<and> (truthy c \<and> too_short e c = Inr True \<longrightarrow>
        post_recipe e cid body s =
          respond (Reply 400 (error_body ''Content is too short (minimum 10 characters)'')) s [])
   \<and> (truthy c \<and> too_short e c = Inr False \<and> too_long e c = Inr True \<longrightarrow>
        post_recipe e cid body s =
          respond (Reply 400 (error_body ''Content is too long (maximum 2000 characters)'')) s [])
   \<and> (\<forall>m. sent (post_recipe e cid body s) = Reply 400 m \<longrightarrow>
        calls (post_recipe e cid body s) = [] \<and> store (post_recipe e cid body s) = s)
   \<and> (\<forall>t. c = JStr t \<longrightarrow>
        truthy c = (t \<noteq> []) \<and> too_short e c = Inr (length t < 10)
        \<and> too_long e c = Inr (2000 < length t))"
  by (auto simp add: post_recipe_def text_checks Let_def city_not_found_def internal_error_def
      created_def split: sum.splits bool.splits fetch_result.splits prod.splits if_splits)

theorem post_validation_order_witness:
  "post_recipe (sample_env sample_fetch) ''7'' (JObj [(''content'', JStr ''Short'')])
     recipeStorage_init
   = respond (Reply 400 (error_body ''Content is too short (minimum 10 characters)''))
       recipeStorage_init []"
proof -
  have h: "body_content (JObj [(''content'', JStr ''Short'')]) = Inr (JStr ''Short'')"
    by (simp add: body_content_def truthy_def get_prop_def)
  show ?thesis
    using post_validation_order [OF h, of "sample_env sample_fetch" "''7''" recipeStorage_init]
    by (simp add: text_checks)
qed

text \<open>
  Claim C4. When the content passes the three checks and the upstream answers the city
  lookup with 404, the POST handler replies 404 \<open>City not found\<close> and leaves the store
  as it was. For every request, the store changes exactly when the reply is a 201; then
  the body of the reply is the new id with the content, and the store is the result of
  \<open>add\<close>: one more recipe at the end, and \<open>lastId\<close> one greater.
\<close>

theorem post_unknown_city_leaves_store:
  "body_content body = Inr c \<Longrightarrow>
     (truthy c \<and> too_short e c = Inr False \<and> too_long e c = Inr False
        \<and> fetch e (city_url e cid) = Response 404 b \<longrightarrow>
        post_recipe e cid body s = respond city_not_found s [city_url e cid])
   \<and> ((\<exists>d. sent (post_recipe e cid body s) = Reply 201 d) \<longleftrightarrow>
          store (post_recipe e cid body s) \<noteq> s)
   \<and> (store (post_recipe e cid body s) \<noteq> s \<longrightarrow>
          sent (post_recipe e cid body s) =
            Reply 201 (JObj [(''id'', js_int (lastId s + 1)), (''content'', c)])
          \<and> store (post_recipe e cid body s) = snd (add cid c s)
          \<and> recipes (store (post_recipe e cid body s)) =
              recipes s @ [\<lparr>recipe_id = lastId s + 1, content = c, cityId = cid\<rparr>]
          \<and> lastId (store (post_recipe e cid body s)) = lastId s + 1)"
proof -
  assume bc: "body_content body = Inr c"
  have n404: "\<not> ok 404" by (simp add: ok_def)
  obtain r s' where a: "add cid c s = (r, s')" by (cases "add cid c s") auto
  with add_changes_store [of cid c s] add_facts [of cid c s]
  have f: "s' \<noteq> s" "lastId s' = lastId s + 1" "recipes s' = recipes s @ [r]"
    "r = \<lparr>recipe_id = lastId s + 1, content = c, cityId = cid\<rparr>"
    by simp_all
  show ?thesis
    using bc n404 a f
    by (auto simp add: post_recipe_def Let_def city_not_found_def internal_error_def
        created_def split: sum.splits bool.splits fetch_result.splits if_splits)
qed

theorem post_unknown_city_leaves_store_witness:
  "post_recipe (sample_env missing_fetch) ''7'' (JObj [(''content'', JStr ''salt and pepper'')])
     recipeStorage_init
   = respond (Reply 404 (error_body ''City not found'')) recipeStorage_init
       [''https://api-ugi2pflmha-ew.a.run.app/cities/7?apiKey=key'']"
proof -
  have h: "body_content (JObj [(''content'', JStr ''salt and pepper'')])
      = Inr (JStr ''salt and pepper'')"
    by (simp add: body_content_def truthy_def get_prop_def)
  show ?thesis
    using post_unknown_city_leaves_store
      [OF h, of "sample_env missing_fetch" "''7''" None recipeStorage_init]
    by (simp add: text_checks sample_city_fetch sample_urls city_not_found_def)
qed

text \<open>
  Claim C10. The checks of the POST handler go by truthiness and by the \<open>length\<close>
  property. A truthy Number has no \<open>length\<close>, so neither comparison holds; with the
  city known upstream, the Number is stored as the content of a new recipe and comes back
  in the 201 reply. For every request, the reply is a 400 exactly when the content is
  not truthy, or its length compares below 10, or it does not and compares above 2000.
\<close>

theorem post_accepts_non_text_content:
  "(truthy (JNum n) \<and> fetch e (city_url e cid) = Response st b \<and> ok st \<longrightarrow>
      get_prop (JNum n) ''length'' = Inr JUndefined
      \<and> too_short e (JNum n) = Inr False \<and> too_long e (JNum n) = Inr False
      \<and> post_recipe e cid (JObj [(''content'', JNum n)]) s =
          respond (Reply 201 (JObj [(''id'', js_int (lastId s + 1)), (''content'', JNum n)]))
            (snd (add cid (JNum n) s)) [city_url e cid]
      \<and> recipes (snd (add cid (JNum n) s)) =
          recipes s @ [\<lparr>recipe_id = lastId s + 1, content = JNum n, cityId = cid\<rparr>])
   \<and> (body_content body = Inr c \<longrightarrow>
        ((\<exists>m. sent (post_recipe e cid body s) = Reply 400 m) \<longleftrightarrow>
           \<not> truthy c \<or> too_short e c = Inr True
           \<or> (too_short e c = Inr False \<and> too_long e c = Inr True)))"
proof (rule conjI; rule impI)
  assume h: "truthy (JNum n) \<and> fetch e (city_url e cid) = Response st b \<and> ok st"
  have l: "get_prop (JNum n) ''length'' = Inr JUndefined"
    by (simp add: get_prop_def)
  have a: "too_short e (JNum n) = Inr False"
    by (simp add: too_short_def l andThen_def js_lt_def to_number_def num_lt_def)
  have b: "too_long e (JNum n) = Inr False"
    by (simp add: too_long_def l andThen_def js_gt_def to_number_def num_lt_def)
  have c: "body_content (JObj [(''content'', JNum n)]) = Inr (JNum n)"
    by (simp add: body_content_def truthy_def get_prop_def)
  from h have "post_recipe e cid (JObj [(''content'', JNum n)]) s =
          respond (Reply 201 (JObj [(''id'', js_int (lastId s + 1)), (''content'', JNum n)]))
            (snd (add cid (JNum n) s)) [city_url e cid]"
    by (simp add: post_recipe_def a b c Let_def created_def add_def)
  with l a b show "get_prop (JNum n) ''length'' = Inr JUndefined
      \<and> too_short e (JNum n) = Inr False \<and> too_long e (JNum n) = Inr False
      \<and> post_recipe e cid (JObj [(''content'', JNum n)]) s =
          respond (Reply 201 (JObj [(''id'', js_int (lastId s + 1)), (''content'', JNum n)]))
            (snd (add cid (JNum n) s)) [city_url e cid]
      \<and> recipes (snd (add cid (JNum n) s)) =
          recipes s @ [\<lparr>recipe_id = lastId s + 1, content = JNum n, cityId = cid\<rparr>]"
    by (simp add: add_facts)
next
  assume "body_content body = Inr c"
  then show "(\<exists>m. sent (post_recipe e cid body s) = Reply 400 m) \<longleftrightarrow>
           \<not> truthy c \<or> too_short e c = Inr True
           \<or> (too_short e c = Inr False \<and> too_long e c = Inr True)"
    by (auto simp add: post_recipe_def Let_def city_not_found_def internal_error_def
        created_def split: sum.splits bool.splits fetch_result.splits prod.splits if_splits)
qed

theorem post_accepts_non_text_content_witness:
  "post_recipe (sample_env sample_fetch) ''7'' (JObj [(''content'', JNum (Fin 42))])
     recipeStorage_init
   = respond (Reply 201 (JObj [(''id'', js_int 1), (''content'', JNum (Fin 42))]))
       (snd (add ''7'' (JNum (Fin 42)) recipeStorage_init))
       [''https://api-ugi2pflmha-ew.a.run.app/cities/7?apiKey=key'']
   \<and> recipes (snd (add ''7'' (JNum (Fin 42)) recipeStorage_init))
       = [\<lparr>recipe_id = 1, content = JNum (Fin 42), cityId = ''7''\<rparr>]"
  using post_accepts_non_text_content
    [of "Fin 42" "sample_env sample_fetch" "''7''" 200 "Some sample_city" recipeStorage_init
       JNull JNull]
  by (simp add: truthy_def sample_city_fetch ok_200 sample_urls recipeStorage_init_def)

section \<open>DELETE /cities/:cityId/recipes/:recipeId\<close>

text \<open>
  Claim C5. When the city exists upstream, deleting a recipe id that is stored under
  another city gets 404 with the message \<open>Recipe not found for this city\<close>, and deleting
  an id that is not stored gets 404 with the message \<open>Recipe not found\<close>. The status is
  the same and the message differs; in both cases the store is as it was.
\<close>

theorem delete_wrong_city_or_unknown_id:
  "fetch e (city_url e cid) = Response st b \<Longrightarrow> ok st \<Longrightarrow>
     (getById rid s = Some r \<and> cityId r \<noteq> cid \<longrightarrow>
        delete_recipe e cid rid s =
          respond (Reply 404 (error_body ''Recipe not found for this city'')) s [city_url e cid])
   \<and> (getById rid s = None \<longrightarrow>
        delete_recipe e cid rid s =
          respond (Reply 404 (error_body ''Recipe not found'')) s [city_url e cid])"
  by (simp add: delete_recipe_city_exists)

theorem delete_wrong_city_or_unknown_id_witness:
  "delete_recipe (sample_env sample_fetch) ''8'' ''1'' sample_store
     = respond (Reply 404 (error_body ''Recipe not found for this city'')) sample_store
         [''https://api-ugi2pflmha-ew.a.run.app/cities/8?apiKey=key'']
   \<and> delete_recipe (sample_env sample_fetch) ''8'' ''2'' sample_store
     = respond (Reply 404 (error_body ''Recipe not found'')) sample_store
         [''https://api-ugi2pflmha-ew.a.run.app/cities/8?apiKey=key'']"
proof -
  have a: "getById ''1'' sample_store
     = Some \<lparr>recipe_id = 1, content = JStr ''salt and pepper'', cityId = ''7''\<rparr>"
    by (simp add: sample_store_value getById_def parseInt_def is_space_def digit_value_def
        radix_value_def)
  have b: "getById ''2'' sample_store = None"
    by (simp add: sample_store_value getById_def parseInt_def is_space_def digit_value_def
        radix_value_def)
  show ?thesis
    using delete_wrong_city_or_unknown_id [OF sample_city_fetch(2) ok_200, of "''1''" sample_store
        "\<lparr>recipe_id = 1, content = JStr ''salt and pepper'', cityId = ''7''\<rparr>"]
      delete_wrong_city_or_unknown_id [OF sample_city_fetch(2) ok_200, of "''2''" sample_store
        "\<lparr>recipe_id = 1, content = JStr ''salt and pepper'', cityId = ''7''\<rparr>"]
      a b
    by (simp add: sample_urls)
qed

text \<open>
  The two replies are not the same reply: with recipe 1 stored for city 7, a DELETE for
  city 8 of id 1 and of id 2 get different bodies.
\<close>

theorem delete_wrong_city_distinguishable:
  "getById ''1'' sample_store
     = Some \<lparr>recipe_id = 1, content = JStr ''salt and pepper'', cityId = ''7''\<rparr>
   \<and> getById ''2'' sample_store = None
   \<and> sent (delete_recipe (sample_env sample_fetch) ''8'' ''1'' sample_store)
       = Reply 404 (error_body ''Recipe not found for this city'')
   \<and> sent (delete_recipe (sample_env sample_fetch) ''8'' ''2'' sample_store)
       = Reply 404 (error_body ''Recipe not found'')
   \<and> sent (delete_recipe (sample_env sample_fetch) ''8'' ''1'' sample_store)
       \<noteq> sent (delete_recipe (sample_env sample_fetch) ''8'' ''2'' sample_store)"
proof -
  have a: "getById ''1'' sample_store
     = Some \<lparr>recipe_id = 1, content = JStr ''salt and pepper'', cityId = ''7''\<rparr>"
    by (simp add: sample_store_value getById_def parseInt_def is_space_def digit_value_def
        radix_value_def)
  have b: "getById ''2'' sample_store = None"
    by (simp add: sample_store_value getById_def parseInt_def is_space_def digit_value_def
        radix_value_def)
  show ?thesis
    by (simp add: a b delete_recipe_city_exists [OF sample_city_fetch(2) ok_200] error_body_def)
qed

text \<open>
  Claim C8. Take a store that satisfies the invariant of the store, add a recipe, and let
  the city exist upstream. A DELETE of the decimal text of the new id for the recipe's own
  city replies 204, and leaves the recipes that were there before the \<open>add\<close>; no stored
  recipe has the id any more. A GET for the city that replies 200 then lists exactly the
  recipes stored for the city, none of which has the id: with the handler of src/index.js
  no listed entry carries the id, and with the validating handler none does as long as
  the ids are safe integers. A second DELETE of the same id replies 404
  \<open>Recipe not found\<close>.
\<close>

theorem delete_created_recipe:
  assumes "store_inv s" and "add cid c s = (r, s1)"
    and "fetch e1 (city_url e1 cid) = Response st1 b1" and "ok st1"
    and "s2 = store (delete_recipe e1 cid (dec_string (recipe_id r)) s1)"
    and "fetch e3 (city_url e3 cid) = Response st3 b3" and "ok st3"
  shows "sent (delete_recipe e1 cid (dec_string (recipe_id r)) s1) = Reply 204 JUndefined
    \<and> recipes s2 = recipes s \<and> lastId s2 = lastId s + 1
    \<and> (\<forall>x\<in>set (recipes s2). recipe_id x \<noteq> recipe_id r)
    \<and> (\<forall>d. sent (get_infos e2 cid s2) = Reply 200 d \<longrightarrow>
          get_prop d ''recipes'' = Inr (JArr (map recipe_entry (getByCityId cid s2)))
          \<and> (\<forall>y\<in>set (map recipe_entry (getByCityId cid s2)).
                get_prop y ''id'' \<noteq> Inr (js_int (recipe_id r))))
    \<and> (\<forall>d. sent (get_infos_validated e2 cid s2) = Reply 200 d \<longrightarrow>
          (\<exists>listed. map_exn (listed_recipe e2) (getByCityId cid s2) = Inr listed
             \<and> get_prop d ''recipes'' = Inr (JArr listed)
             \<and> (\<forall>x\<in>set (getByCityId cid s2). recipe_id x \<noteq> recipe_id r)
             \<and> (lastId s < 2 ^ 53 \<longrightarrow>
                  (\<forall>y\<in>set listed. get_prop y ''id'' \<noteq> Inr (js_int (recipe_id r))))))
    \<and> delete_recipe e3 cid (dec_string (recipe_id r)) s2 =
        respond (Reply 404 (error_body ''Recipe not found'')) s2 [city_url e3 cid]"
proof -
  let ?i = "dec_string (recipe_id r)"
  note f = add_then_lookup [OF assms(1,2)]
  have del: "delete_recipe e1 cid ?i s1 =
      respond (Reply 204 JUndefined) (snd (deleteById ?i s1)) [city_url e1 cid]"
    using assms(3,4) f(1,4) by (simp add: delete_recipe_city_exists)
  then have s2: "s2 = snd (deleteById ?i s1)"
    using assms(5) by simp
  have rs: "recipes s2 = recipes s" and li: "lastId s2 = lastId s + 1"
    unfolding s2 using f(2,3) by simp_all
  have fresh: "\<forall>x\<in>set (recipes s2). recipe_id x \<noteq> recipe_id r"
    unfolding rs by (rule f(5))
  then have freshc: "\<forall>x\<in>set (getByCityId cid s2). recipe_id x \<noteq> recipe_id r"
    by (simp add: getByCityId_def)
  have bound: "\<forall>x\<in>set (recipes s2). 1 \<le> recipe_id x \<and> recipe_id x \<le> lastId s"
    unfolding rs using assms(1) by (simp add: store_inv_def)
  have one: "\<forall>d. sent (get_infos e2 cid s2) = Reply 200 d \<longrightarrow>
          get_prop d ''recipes'' = Inr (JArr (map recipe_entry (getByCityId cid s2)))
          \<and> (\<forall>y\<in>set (map recipe_entry (getByCityId cid s2)).
                get_prop y ''id'' \<noteq> Inr (js_int (recipe_id r)))"
    using freshc by (auto simp add: get_infos_lists recipe_entry_id js_int_inj)
  have two: "\<forall>d. sent (get_infos_validated e2 cid s2) = Reply 200 d \<longrightarrow>
          (\<exists>listed. map_exn (listed_recipe e2) (getByCityId cid s2) = Inr listed
             \<and> get_prop d ''recipes'' = Inr (JArr listed)
             \<and> (\<forall>x\<in>set (getByCityId cid s2). recipe_id x \<noteq> recipe_id r)
             \<and> (lastId s < 2 ^ 53 \<longrightarrow>
                  (\<forall>y\<in>set listed. get_prop y ''id'' \<noteq> Inr (js_int (recipe_id r)))))"
  proof (intro allI impI)
    fix d assume "sent (get_infos_validated e2 cid s2) = Reply 200 d"
    from get_infos_validated_lists [OF this] obtain listed where
      l: "map_exn (listed_recipe e2) (getByCityId cid s2) = Inr listed"
         "get_prop d ''recipes'' = Inr (JArr listed)" by blast
    have "lastId s < 2 ^ 53 \<longrightarrow>
        (\<forall>y\<in>set listed. get_prop y ''id'' \<noteq> Inr (js_int (recipe_id r)))"
    proof (intro impI ballI)
      fix y assume small: "lastId s < 2 ^ 53" and y: "y \<in> set listed"
      from map_exn_set [OF l(1) y] obtain x where
        x: "x \<in> set (getByCityId cid s2)" "listed_recipe e2 x = Inr y" by blast
      from x(1) have xs: "x \<in> set (recipes s2)" by (simp add: getByCityId_def)
      with bound small have "\<bar>recipe_id x\<bar> \<le> 2 ^ 53" by auto
      from listed_recipe_id [OF x(2) this] freshc x(1)
      show "get_prop y ''id'' \<noteq> Inr (js_int (recipe_id r))"
        by (simp add: js_int_inj)
    qed
    with l freshc
    show "\<exists>listed. map_exn (listed_recipe e2) (getByCityId cid s2) = Inr listed
             \<and> get_prop d ''recipes'' = Inr (JArr listed)
             \<and> (\<forall>x\<in>set (getByCityId cid s2). recipe_id x \<noteq> recipe_id r)
             \<and> (lastId s < 2 ^ 53 \<longrightarrow>
                  (\<forall>y\<in>set listed. get_prop y ''id'' \<noteq> Inr (js_int (recipe_id r))))"
      by blast
  qed
  have "getById ?i s2 = None"
    using fresh by (auto simp add: getById_def parseInt_dec_string find_None_iff)
  then have three: "delete_recipe e3 cid ?i s2 =
        respond (Reply 404 (error_body ''Recipe not found'')) s2 [city_url e3 cid]"
    using assms(6,7) by (simp add: delete_recipe_city_exists)
  from del rs li fresh one two three show ?thesis by simp
qed

theorem delete_created_recipe_witness:
  "sent (delete_recipe (sample_env sample_fetch) ''7'' ''1'' sample_store) = Reply 204 JUndefined
   \<and> recipes (store (delete_recipe (sample_env sample_fetch) ''7'' ''1'' sample_store)) = []
   \<and> delete_recipe (sample_env sample_fetch) ''7'' ''1''
        (store (delete_recipe (sample_env sample_fetch) ''7'' ''1'' sample_store))
      = respond (Reply 404 (error_body ''Recipe not found''))
          (store (delete_recipe (sample_env sample_fetch) ''7'' ''1'' sample_store))
          [''https://api-ugi2pflmha-ew.a.run.app/cities/7?apiKey=key'']"
proof -
  have i: "store_inv recipeStorage_init"
    by (rule store_inv_init)
  have a: "add ''7'' (JStr ''salt and pepper'') recipeStorage_init
      = (\<lparr>recipe_id = 1, content = JStr ''salt and pepper'', cityId = ''7''\<rparr>, sample_store)"
    by (simp add: sample_store_def add_def Let_def recipeStorage_init_def)
  show ?thesis
    using delete_created_recipe [OF i a sample_city_fetch(1) ok_200 refl sample_city_fetch(1) ok_200,
        of "sample_env sample_fetch"]
    by (simp add: dec_string_1 sample_urls recipeStorage_init_def)
qed

section \<open>The error replies of GET /cities/:cityId/infos\<close>

text \<open>
  In the validating handler: when the city lookup answers 404, the reply is 404
  \<open>City not found\<close>; when the lookup fails in the network or answers another status
  outside 200 to 299, the reply is 500 \<open>Internal server error\<close>; so it is when the body
  of the answer cannot be parsed or the payload fails a check, and when the forecast lookup
  fails, answers outside 200 to 299, cannot be parsed or fails a check. Every reply of the
  handler is that 404, that 500, or a 200, and it is the 404 exactly when the city lookup
  answered 404. The handler of src/index.js has the same replies for 404, for a network
  failure and for another status, and no reply but these three either.
\<close>

theorem get_infos_error_replies:
  "(fetch e (insights_url e cid) = Response 404 b \<longrightarrow>
      get_infos_validated e cid s = respond city_not_found s [insights_url e cid])
   \<and> (fetch e (insights_url e cid) = NetworkFailure
        \<or> (fetch e (insights_url e cid) = Response st b \<and> \<not> ok st \<and> st \<noteq> 404) \<longrightarrow>
      get_infos_validated e cid s = respond internal_error s [insights_url e cid])
   \<and> (ok st \<and> (fetch e (insights_url e cid) = Response st None
                \<or> (fetch e (insights_url e cid) = Response st (Some cd) \<and> validate_city cd = Inl x)) \<longrightarrow>
      get_infos_validated e cid s = respond internal_error s [insights_url e cid])
   \<and> (ok st \<and> fetch e (insights_url e cid) = Response st (Some cd) \<and> validate_city cd = Inr ()
        \<and> weather_url e cd = Inr wurl
        \<and> (fetch e wurl = NetworkFailure
            \<or> (fetch e wurl = Response wst wb
                \<and> (\<not> ok wst \<or> wb = None \<or> (wb = Some wd \<and> validate_weather wd = Inl y)))) \<longrightarrow>
      get_infos_validated e cid s = respond internal_error s [insights_url e cid, wurl])
   \<and> (sent (get_infos_validated e cid s) = city_not_found
        \<or> sent (get_infos_validated e cid s) = internal_error
        \<or> (\<exists>d. sent (get_infos_validated e cid s) = Reply 200 d))
   \<and> (sent (get_infos_validated e cid s) = city_not_found
        \<longleftrightarrow> (\<exists>b. fetch e (insights_url e cid) = Response 404 b))
   \<and> (fetch e (city_url e cid) = Response 404 b \<longrightarrow>
        get_infos e cid s = respond city_not_found s [city_url e cid])
   \<and> (fetch e (city_url e cid) = NetworkFailure
        \<or> (fetch e (city_url e cid) = Response st b \<and> \<not> ok st \<and> st \<noteq> 404) \<longrightarrow>
      get_infos e cid s = respond internal_error s [city_url e cid])
   \<and> (sent (get_infos e cid s) = city_not_found
        \<or> sent (get_infos e cid s) = internal_error
        \<or> (\<exists>d. sent (get_infos e cid s) = Reply 200 d))
   \<and> (sent (get_infos e cid s) = city_not_found
        \<longleftrightarrow> (\<exists>b. fetch e (city_url e cid) = Response 404 b))"
proof -
  have a: "fetch e (insights_url e cid) = Response 404 b \<longrightarrow>
      get_infos_validated e cid s = respond city_not_found s [insights_url e cid]"
    by (simp add: get_infos_validated_def Let_def not_ok_404)
  have b: "fetch e (insights_url e cid) = NetworkFailure
        \<or> (fetch e (insights_url e cid) = Response st b \<and> \<not> ok st \<and> st \<noteq> 404) \<longrightarrow>
      get_infos_validated e cid s = respond internal_error s [insights_url e cid]"
    by (auto simp add: get_infos_validated_def Let_def)
  have c: "ok st \<and> (fetch e (insights_url e cid) = Response st None
                \<or> (fetch e (insights_url e cid) = Response st (Some cd) \<and> validate_city cd = Inl x)) \<longrightarrow>
      get_infos_validated e cid s = respond internal_error s [insights_url e cid]"
    by (auto simp add: get_infos_validated_def Let_def andThen_def)
  have d: "ok st \<and> fetch e (insights_url e cid) = Response st (Some cd) \<and> validate_city cd = Inr ()
        \<and> weather_url e cd = Inr wurl
        \<and> (fetch e wurl = NetworkFailure
            \<or> (fetch e wurl = Response wst wb
                \<and> (\<not> ok wst \<or> wb = None \<or> (wb = Some wd \<and> validate_weather wd = Inl y)))) \<longrightarrow>
      get_infos_validated e cid s = respond internal_error s [insights_url e cid, wurl]"
    by (auto simp add: get_infos_validated_def Let_def andThen_def catch_def)
  have a': "fetch e (city_url e cid) = Response 404 b \<longrightarrow>
        get_infos e cid s = respond city_not_found s [city_url e cid]"
    by (simp add: get_infos_def Let_def not_ok_404)
  have b': "fetch e (city_url e cid) = NetworkFailure
        \<or> (fetch e (city_url e cid) = Response st b \<and> \<not> ok st \<and> st \<noteq> 404) \<longrightarrow>
      get_infos e cid s = respond internal_error s [city_url e cid]"
    by (auto simp add: get_infos_def Let_def)
  from a b c d a' b' get_infos_validated_replies [of e cid s] get_infos_replies [of e cid s]
    get_infos_validated_not_found_iff [of e cid s] get_infos_not_found_iff [of e cid s]
  show ?thesis by blast
qed

theorem get_infos_error_replies_witness:
  "get_infos_validated (sample_env missing_fetch) ''7'' recipeStorage_init
     = respond (Reply 404 (error_body ''City not found'')) recipeStorage_init
         [''https://api-ugi2pflmha-ew.a.run.app/cities/7/insights?apiKey=key'']
   \<and> get_infos (sample_env missing_fetch) ''7'' recipeStorage_init
     = respond (Reply 404 (error_body ''City not found'')) recipeStorage_init
         [''https://api-ugi2pflmha-ew.a.run.app/cities/7?apiKey=key'']"
  using get_infos_error_replies
    [of "sample_env missing_fetch" "''7''" None recipeStorage_init 404 JNull TypeError
       "[]" 404 None JNull TypeError]
  by (simp add: sample_city_fetch sample_urls city_not_found_def)

text \<open>
  Claim C6. A request is to end in an error only as the 404 of a city that is not found
  or as the 500 of an upstream error or of a shape error. In the validating handler a 500
  has one more cause: with a recipe in the store whose content has no text, no lookup
  answers 404, none has an upstream error, both payloads pass the checks, and the reply is
  500, where the handler of src/index.js replies 200 with the document.
\<close>

theorem infos_500_without_upstream_or_shape_error:
  "\<not> lookup_not_found (sample_env sample_fetch)
        ''https://api-ugi2pflmha-ew.a.run.app/cities/7/insights?apiKey=key''
   \<and> \<not> city_upstream_error (sample_env sample_fetch)
        ''https://api-ugi2pflmha-ew.a.run.app/cities/7/insights?apiKey=key''
   \<and> \<not> shape_error (sample_env sample_fetch)
        ''https://api-ugi2pflmha-ew.a.run.app/cities/7/insights?apiKey=key'' validate_city
   \<and> \<not> weather_upstream_error (sample_env sample_fetch)
        ''https://api-ugi2pflmha-ew.a.run.app/weather?lat=48&lon=2&apiKey=key''
   \<and> \<not> shape_error (sample_env sample_fetch)
        ''https://api-ugi2pflmha-ew.a.run.app/weather?lat=48&lon=2&apiKey=key'' validate_weather
   \<and> get_infos_validated (sample_env sample_fetch) ''7'' poisoned_store
       = respond (Reply 500 (error_body ''Internal server error'')) poisoned_store
           [''https://api-ugi2pflmha-ew.a.run.app/cities/7/insights?apiKey=key'',
            ''https://api-ugi2pflmha-ew.a.run.app/weather?lat=48&lon=2&apiKey=key'']
   \<and> get_infos (sample_env sample_fetch) ''7'' poisoned_store
       = respond
           (Reply 200
              (infos_document (JArr [js_int 48, js_int 2]) (js_int 2000000) (JArr [JStr ''bread''])
                 (prediction ''today'' (js_int 3) (js_int 9))
                 (prediction ''tomorrow'' (js_int 4) (js_int 11))
                 (JArr [JObj [(''id'', js_int 1), (''content'', poisoned_content)]])))
           poisoned_store
           [''https://api-ugi2pflmha-ew.a.run.app/cities/7?apiKey=key'',
            ''https://api-ugi2pflmha-ew.a.run.app/weather?lat=48&lon=2&apiKey=key'']"
proof -
  have a: "\<not> lookup_not_found (sample_env sample_fetch)
        ''https://api-ugi2pflmha-ew.a.run.app/cities/7/insights?apiKey=key''"
    by (simp add: lookup_not_found_def sample_city_fetch)
  have b: "\<not> city_upstream_error (sample_env sample_fetch)
        ''https://api-ugi2pflmha-ew.a.run.app/cities/7/insights?apiKey=key''"
    by (simp add: city_upstream_error_def sample_city_fetch ok_200)
  have c: "\<not> shape_error (sample_env sample_fetch)
        ''https://api-ugi2pflmha-ew.a.run.app/cities/7/insights?apiKey=key'' validate_city"
    by (simp add: shape_error_def sample_city_fetch sample_city_valid)
  have d: "\<not> weather_upstream_error (sample_env sample_fetch)
        ''https://api-ugi2pflmha-ew.a.run.app/weather?lat=48&lon=2&apiKey=key''"
    by (simp add: weather_upstream_error_def sample_city_fetch ok_200)
  have f: "\<not> shape_error (sample_env sample_fetch)
        ''https://api-ugi2pflmha-ew.a.run.app/weather?lat=48&lon=2&apiKey=key'' validate_weather"
    by (simp add: shape_error_def sample_city_fetch sample_weather_valid)
  have g: "get_infos_validated (sample_env sample_fetch) ''7'' poisoned_store
       = respond (Reply 500 (error_body ''Internal server error'')) poisoned_store
           [''https://api-ugi2pflmha-ew.a.run.app/cities/7/insights?apiKey=key'',
            ''https://api-ugi2pflmha-ew.a.run.app/weather?lat=48&lon=2&apiKey=key'']"
    by (simp add: get_infos_validated_def Let_def sample_urls sample_city_fetch
        sample_city_valid sample_weather_valid sample_weather_url andThen_def ok_200
        infos_response_validated_def getByCityId_def poisoned_store_value poisoned_listed
        catch_def internal_error_def)
  have r: "infos_response sample_city sample_weather
        [\<lparr>recipe_id = 1, content = poisoned_content, cityId = ''7''\<rparr>]
      = Inr (infos_document (JArr [js_int 48, js_int 2]) (js_int 2000000) (JArr [JStr ''bread''])
                 (prediction ''today'' (js_int 3) (js_int 9))
                 (prediction ''tomorrow'' (js_int 4) (js_int 11))
                 (JArr [JObj [(''id'', js_int 1), (''content'', poisoned_content)]]))"
    by (simp add: infos_response_def sample_city_def sample_weather_def get_prop_def
        andThen_def recipe_entry_def)
  have h: "get_infos (sample_env sample_fetch) ''7'' poisoned_store
       = respond
           (Reply 200
              (infos_document (JArr [js_int 48, js_int 2]) (js_int 2000000) (JArr [JStr ''bread''])
                 (prediction ''today'' (js_int 3) (js_int 9))
                 (prediction ''tomorrow'' (js_int 4) (js_int 11))
                 (JArr [JObj [(''id'', js_int 1), (''content'', poisoned_content)]])))
           poisoned_store
           [''https://api-ugi2pflmha-ew.a.run.app/cities/7?apiKey=key'',
            ''https://api-ugi2pflmha-ew.a.run.app/weather?lat=48&lon=2&apiKey=key'']"
    by (simp add: get_infos_def Let_def sample_urls sample_city_fetch sample_weather_url
        andThen_def ok_200 getByCityId_def poisoned_store_value r catch_def)
  from a b c d f g h show ?thesis by simp
qed

theorem infos_500_without_upstream_or_shape_error_witness:
  "sent (get_infos_validated (sample_env sample_fetch) ''7'' poisoned_store)
     = Reply 500 (error_body ''Internal server error'')"
  using infos_500_without_upstream_or_shape_error by simp

section \<open>The checks on the city payload\<close>

text \<open>
  The checks of the validating handler on the city payload succeed exactly when
  the payload has the shape in the words of the specification: coordinates are two
  numeric values, population is an integer, knownFor is a sequence. Otherwise they throw:
  a TypeError when the payload is \<open>null\<close>, else an \<open>Error\<close> that names the field. On
  success, with a runtime in order, the normalised coordinates are the same two Numbers,
  the normalised population is an integer (the same one when it is a safe integer), and
  the normalised knownFor is the list of the texts of its entries; the normalisation
  throws only when the conversion to text of an entry does.
\<close>

theorem validate_city_matches_spec:
  "(validate_city raw = Inr ()) = spec_city_shape raw
   \<and> (\<not> spec_city_shape raw \<longrightarrow>
        validate_city raw = Inl TypeError
        \<or> validate_city raw = Inl (Error ''Invalid coordinates format from City API'')
        \<or> validate_city raw = Inl (Error ''Invalid population format from City API'')
        \<or> validate_city raw = Inl (Error ''Invalid knownFor format from City API''))
   \<and> (spec_city_shape raw \<and> runtime_ok e \<longrightarrow>
        (\<exists>a b r ks k.
           get_prop raw ''coordinates'' = Inr (JArr [JNum a, JNum b])
           \<and> get_prop raw ''population'' = Inr (JNum (Fin r))
           \<and> get_prop raw ''knownFor'' = Inr (JArr ks)
           \<and> (\<bar>r\<bar> \<le> 2 ^ 53 \<longrightarrow> k = \<lfloor>r\<rfloor>)
           \<and> (\<forall>ts. map_exn (to_string e) ks = Inr ts \<longrightarrow>
                 city_fields e raw = Inr (JArr [JNum a, JNum b], js_int k, JArr (map JStr ts)))
           \<and> (\<forall>x. map_exn (to_string e) ks = Inl x \<longrightarrow> (\<exists>y. city_fields e raw = Inl y))))"
proof (intro conjI impI)
  show eq: "(validate_city raw = Inr ()) = spec_city_shape raw"
    unfolding validate_city_iff spec_city_shape_iff integer_iff ..
  assume "\<not> spec_city_shape raw"
  with eq have "validate_city raw \<noteq> Inr ()" by simp
  with validate_city_errors [of raw]
  show "validate_city raw = Inl TypeError
        \<or> validate_city raw = Inl (Error ''Invalid coordinates format from City API'')
        \<or> validate_city raw = Inl (Error ''Invalid population format from City API'')
        \<or> validate_city raw = Inl (Error ''Invalid knownFor format from City API'')"
    by blast
next
  assume h: "spec_city_shape raw \<and> runtime_ok e"
  then obtain a b r ks where
    co: "get_prop raw ''coordinates'' = Inr (JArr [JNum a, JNum b])" and
    po: "get_prop raw ''population'' = Inr (JNum (Fin r))" and
    ri: "r \<in> \<int>" and
    kf: "get_prop raw ''knownFor'' = Inr (JArr ks)"
    unfolding spec_city_shape_iff by blast
  from ri have "of_int \<lfloor>r\<rfloor> = r" by (simp add: integer_iff)
  from parseInt_val_integer [OF _ this, of e] h obtain k where
    k: "parseInt_val e (JNum (Fin r)) = Inr (js_int k)" "\<bar>r\<bar> \<le> 2 ^ 53 \<longrightarrow> k = \<lfloor>r\<rfloor>"
    by blast
  have ok: "\<forall>ts. map_exn (to_string e) ks = Inr ts \<longrightarrow>
      city_fields e raw = Inr (JArr [JNum a, JNum b], js_int k, JArr (map JStr ts))"
    using city_fields_valid [OF co po kf k(1)] by blast
  have bad: "\<forall>x. map_exn (to_string e) ks = Inl x \<longrightarrow> (\<exists>y. city_fields e raw = Inl y)"
    using co po kf k(1)
    by (simp add: city_fields_def andThen_def get_index_def js_Number_def to_number_def
        map_exn_js_String)
  from co po kf k(2) ok bad
  show "\<exists>a b r ks k.
           get_prop raw ''coordinates'' = Inr (JArr [JNum a, JNum b])
           \<and> get_prop raw ''population'' = Inr (JNum (Fin r))
           \<and> get_prop raw ''knownFor'' = Inr (JArr ks)
           \<and> (\<bar>r\<bar> \<le> 2 ^ 53 \<longrightarrow> k = \<lfloor>r\<rfloor>)
           \<and> (\<forall>ts. map_exn (to_string e) ks = Inr ts \<longrightarrow>
                 city_fields e raw = Inr (JArr [JNum a, JNum b], js_int k, JArr (map JStr ts)))
           \<and> (\<forall>x. map_exn (to_string e) ks = Inl x \<longrightarrow> (\<exists>y. city_fields e raw = Inl y))"
    by blast
qed

theorem validate_city_matches_spec_witness:
  "validate_city sample_city = Inr () \<and> spec_city_shape sample_city
   \<and> runtime_ok (sample_env sample_fetch)
   \<and> validate_city (JObj [(''coordinates'', JStr ''48,2'')])
       = Inl (Error ''Invalid coordinates format from City API'')
   \<and> \<not> spec_city_shape (JObj [(''coordinates'', JStr ''48,2'')])"
  using validate_city_matches_spec [of sample_city "sample_env sample_fetch"]
    validate_city_matches_spec [of "JObj [(''coordinates'', JStr ''48,2'')]" "sample_env sample_fetch"]
    runtime_ok_sample [of sample_fetch] sample_city_valid
  by (simp add: validate_city_def get_prop_def andThen_def)



section \<open>Looking a recipe up by the text of its id\<close>

text \<open>
  Claim C9. \<open>getById\<close> and \<open>deleteById\<close> compare the stored ids with \<open>parseInt\<close> of
  their argument. For a stored recipe, the decimal text of its id parses to the id, so
  \<open>getById\<close> on that text finds a recipe with the id (the recipe itself when the stored
  ids are distinct) and \<open>deleteById\<close> returns true. For an argument whose parse is no
  stored id, which includes text that parses to \<open>NaN\<close>, \<open>getById\<close> returns nothing and
  \<open>deleteById\<close> returns false and leaves the store as it was.
\<close>

theorem getById_deleteById_parse_their_argument:
  "(r \<in> set (recipes s) \<longrightarrow>
      parseInt (dec_string (recipe_id r)) = Some (recipe_id r)
      \<and> (\<exists>r'. getById (dec_string (recipe_id r)) s = Some r' \<and> recipe_id r' = recipe_id r)
      \<and> (store_inv s \<longrightarrow> getById (dec_string (recipe_id r)) s = Some r)
      \<and> fst (deleteById (dec_string (recipe_id r)) s))
   \<and> ((\<forall>r\<in>set (recipes s). parseInt a \<noteq> Some (recipe_id r)) \<longrightarrow>
      getById a s = None \<and> deleteById a s = (False, s))"
proof (intro conjI impI)
  show "parseInt (dec_string (recipe_id r)) = Some (recipe_id r)"
    by (rule parseInt_dec_string)
next
  assume r: "r \<in> set (recipes s)"
  from find_Some_ex [of r "recipes s" "\<lambda>x. Some (recipe_id x) = Some (recipe_id r)"] r
  show "\<exists>r'. getById (dec_string (recipe_id r)) s = Some r' \<and> recipe_id r' = recipe_id r"
    by (auto simp add: getById_def parseInt_dec_string)
next
  assume "r \<in> set (recipes s)" and "store_inv s"
  then show "getById (dec_string (recipe_id r)) s = Some r"
    by (simp add: getById_def parseInt_dec_string find_distinct store_inv_def)
next
  assume "r \<in> set (recipes s)"
  then show "fst (deleteById (dec_string (recipe_id r)) s)"
    by (auto simp add: fst_deleteById parseInt_dec_string)
next
  assume n: "\<forall>r\<in>set (recipes s). parseInt a \<noteq> Some (recipe_id r)"
  then show "getById a s = None"
    by (auto simp add: getById_def find_None_iff)
next
  assume n: "\<forall>r\<in>set (recipes s). parseInt a \<noteq> Some (recipe_id r)"
  then have "findIndex (\<lambda>r. Some (recipe_id r) = parseInt a) (recipes s) = None"
    by (auto simp add: findIndex_None)
  then show "deleteById a s = (False, s)"
    by (simp add: deleteById_def)
qed

theorem getById_deleteById_parse_their_argument_witness:
  "getById ''1'' \<lparr>recipes = [\<lparr>recipe_id = 1, content = JStr ''salt and pepper'', cityId = ''7''\<rparr>],
                   lastId = 1\<rparr>
     = Some \<lparr>recipe_id = 1, content = JStr ''salt and pepper'', cityId = ''7''\<rparr>
   \<and> fst (deleteById ''1''
        \<lparr>recipes = [\<lparr>recipe_id = 1, content = JStr ''salt and pepper'', cityId = ''7''\<rparr>],
         lastId = 1\<rparr>)
   \<and> getById ''abc''
        \<lparr>recipes = [\<lparr>recipe_id = 1, content = JStr ''salt and pepper'', cityId = ''7''\<rparr>],
         lastId = 1\<rparr> = None
   \<and> deleteById ''abc''
        \<lparr>recipes = [\<lparr>recipe_id = 1, content = JStr ''salt and pepper'', cityId = ''7''\<rparr>],
         lastId = 1\<rparr>
       = (False, \<lparr>recipes = [\<lparr>recipe_id = 1, content = JStr ''salt and pepper'', cityId = ''7''\<rparr>],
                  lastId = 1\<rparr>)"
proof -
  have d: "dec_string 1 = ''1''"
    by (simp add: dec_string_def digits.simps digit_char_values)
  have n: "parseInt ''abc'' = None"
    by (simp add: parseInt_def is_space_def digit_value_def)
  show ?thesis
    using getById_deleteById_parse_their_argument
      [of "\<lparr>recipe_id = 1, content = JStr ''salt and pepper'', cityId = ''7''\<rparr>"
          "\<lparr>recipes = [\<lparr>recipe_id = 1, content = JStr ''salt and pepper'', cityId = ''7''\<rparr>],
            lastId = 1\<rparr>" "''abc''"] d n
    by (simp add: store_inv_def)
qed

end
